theory Spec2Isabelle
  imports Complex_Main "HOL-Library.Char_ord" "HOL-Library.List_Lexorder"
begin

section \<open>Numbers, rounding and raised errors\<close>

text \<open>
  The Python sources compute on \<open>float\<close>. The embedding has the computation twice.
  This section and the next compute on exact rationals: every decimal literal of the
  source (\<open>0.2\<close>, \<open>0.9\<close>, \<open>0.001\<close>, \<open>1.5\<close>, ...) is the rational it denotes, and
  \<open>round(x, n)\<close> is decimal rounding to \<open>n\<close> places with ties going to the even
  neighbour; this is what the statements on which rows are scored, on the order of
  scoring and summing, and on zero denominators are made on. Where a statement is about
  the digits that are returned, the computation is the binary64 one of the section on
  binary floating point below.
\<close>

datatype py_error = ZeroDivisionError | IntegrityError | IndexError

definition bind_err :: "py_error + 'a \<Rightarrow> ('a \<Rightarrow> py_error + 'b) \<Rightarrow> py_error + 'b" where
  "bind_err m f = (case m of Inl e \<Rightarrow> Inl e | Inr x \<Rightarrow> f x)"

text \<open>Python's \<open>a / b\<close> on floats raises \<open>ZeroDivisionError\<close> when \<open>b\<close> is zero.\<close>

definition py_div :: "rat \<Rightarrow> rat \<Rightarrow> py_error + rat" where
  "py_div a b = (if b = 0 then Inl ZeroDivisionError else Inr (a / b))"

definition round_half_even :: "rat \<Rightarrow> int" where
  "round_half_even x =
     (let f = \<lfloor>x\<rfloor>; d = x - of_int f
      in if d < 1 / 2 then f
         else if 1 / 2 < d then f + 1
         else if even f then f else f + 1)"

text \<open>\<open>round(x, ndigits)\<close>.\<close>

definition py_round :: "rat \<Rightarrow> nat \<Rightarrow> rat" where
  "py_round x ndigits = of_int (round_half_even (x * 10 ^ ndigits)) / 10 ^ ndigits"

section \<open>points.py: the points engine\<close>

text \<open>
  The dictionaries handed to \<open>calculate_player_points\<close> are per-match stat rows and
  leaderboard rows. The keys the engine and the aggregator read are the fields of
  \<open>stat_dict\<close>; the two row types extend it, as a Python dict may carry further keys.
  \<open>role = None\<close> stands for a dict without the key \<open>"role"\<close>. The integer columns are
  integers, turned into numbers of the computation by \<open>of_int\<close> where the source
  applies \<open>float(...)\<close>. Of the display strings only \<open>ign\<close> and \<open>team\<close> are carried;
  the others (abbreviation, region, agent, profile URL) are copied around by the source in
  the same way and take part in no computation.
\<close>

record stat_dict =
  player_id :: string
  tournament_id :: int
  ign :: string
  team :: string
  role :: "string option"
  kills :: int
  deaths :: int
  assists :: int
  acs :: rat
  kast :: rat
  adr :: rat
  first_kills :: int
  first_deaths :: int
  rating :: rat
  headshot_pct :: rat

text \<open>\<open>r = role or p.get("role", "flex")\<close>: an absent or empty argument falls back
  to the dict's role, and that to \<open>"flex"\<close>.\<close>

definition effective_role :: "'a stat_dict_scheme \<Rightarrow> string option \<Rightarrow> string" where
  "effective_role p role_arg =
     (let p_role = (case role p of None \<Rightarrow> ''flex'' | Some s \<Rightarrow> s)
      in case role_arg of
           None \<Rightarrow> p_role
         | Some s \<Rightarrow> if s = [] then p_role else s)"

text \<open>The four nested helpers \<open>_duelist\<close>, \<open>_initiator\<close>, \<open>_controller\<close>,
  \<open>_sentinel\<close>, over the local variables they close over.\<close>

definition duelist :: "rat \<Rightarrow> rat \<Rightarrow> rat \<Rightarrow> py_error + rat" where
  "duelist acs_v fk fd =
     bind_err (py_div acs_v 10) (\<lambda>a. Inr (a + (fk + fd) - fd * (9 / 10)))"

definition initiator :: "rat \<Rightarrow> rat \<Rightarrow> rat \<Rightarrow> py_error + rat" where
  "initiator assists_v ka_d kast_dec =
     (let safe_kad = (if ka_d > 0 then ka_d else 1 / 1000);
          safe_kast = (if kast_dec > 0 then kast_dec else 1 / 100)
      in bind_err (py_div assists_v safe_kad) (\<lambda>q.
         bind_err (py_div q safe_kast) (\<lambda>q'. Inr (assists_v + q'))))"

definition controller :: "rat \<Rightarrow> rat \<Rightarrow> rat \<Rightarrow> py_error + rat" where
  "controller assists_v kast_v ka_d =
     bind_err (py_div kast_v 10) (\<lambda>k. Inr (assists_v * (3 / 4) + k * ka_d))"

definition sentinel :: "rat \<Rightarrow> rat \<Rightarrow> py_error + rat" where
  "sentinel acs_v adr_v =
     bind_err (py_div acs_v 10) (\<lambda>a.
     bind_err (py_div adr_v 100) (\<lambda>b.
     bind_err (py_div b (3 / 2)) (\<lambda>c. Inr (a + c))))"

definition calculate_player_points ::
  "'a stat_dict_scheme \<Rightarrow> string option \<Rightarrow> py_error + (rat \<times> rat \<times> rat)" where
  "calculate_player_points p role_arg =
     (let r = effective_role p role_arg;
          kills_v = (of_int (kills p) :: rat);
          deaths_v = (if (of_int (deaths p) :: rat) = 0 then 1 else of_int (deaths p));
          assists_v = (of_int (assists p) :: rat);
          acs_v = acs p;
          kast_v = kast p;
          adr_v = adr p;
          fk = (of_int (first_kills p) :: rat);
          fd = (of_int (first_deaths p) :: rat);
          rating_v = rating p
      in bind_err (if kast_v > 0 then py_div kast_v 100 else Inr 0) (\<lambda>kast_dec.
         bind_err (py_div (kills_v + assists_v) deaths_v) (\<lambda>ka_d.
         bind_err (py_div kast_dec 5) (\<lambda>kast5.
           let kill_pts = kills_v * 4;
               death_pts = deaths_v * (- 6);
               ast_pts = assists_v * 1;
               acs_kast = acs_v * kast5;
               fk_pts = fk * 2;
               fd_pts = fd * (- 4);
               adr_pts = adr_v * (2 / 10);
               base = py_round
                 (kill_pts + death_pts + ast_pts + acs_kast + fk_pts + fd_pts + adr_pts) 4
           in bind_err
                (if r = ''duelist'' then
                   bind_err (duelist acs_v fk fd) (\<lambda>role_bonus.
                     Inr (role_bonus, base + role_bonus))
                 else if r = ''initiator'' then
                   bind_err (initiator assists_v ka_d kast_dec) (\<lambda>role_bonus.
                     Inr (role_bonus, base + role_bonus))
                 else if r = ''controller'' then
                   bind_err (controller assists_v kast_v ka_d) (\<lambda>role_bonus.
                     Inr (role_bonus, base + role_bonus))
                 else if r = ''sentinel'' then
                   bind_err (sentinel acs_v adr_v) (\<lambda>role_bonus.
                     Inr (role_bonus, base + role_bonus))
                 else if r = ''flex'' then
                   bind_err (duelist acs_v fk fd) (\<lambda>d_bonus.
                   bind_err (initiator assists_v ka_d kast_dec) (\<lambda>i_bonus.
                   bind_err (controller assists_v kast_v ka_d) (\<lambda>c_bonus.
                   bind_err (sentinel acs_v adr_v) (\<lambda>s_bonus.
                     let all_bonuses = d_bonus + i_bonus + c_bonus + s_bonus;
                         rating_bonus = rating_v * 10 * (kast_dec - 7 / 10)
                     in bind_err (py_div all_bonuses 4) (\<lambda>quarter.
                          let total = base + quarter + rating_bonus
                          in Inr (total - base, total))))))
                 else Inr (0, base))
                (\<lambda>(role_bonus, total).
                   Inr (base, py_round role_bonus 4, py_round total 2))))))"

section \<open>Binary floating point\<close>

text \<open>
  A Python \<open>float\<close> is an IEEE 754 binary64 number. Where a claim depends on the last
  digit that \<open>round\<close> keeps, the exact rationals above are not enough: the sum
  \<open>-45.1 + 0.375\<close> is the tie \<open>-44.725\<close> in exact arithmetic, and the source returns
  \<open>-44.73\<close> for it. The functions of this section compute on the rationals that are
  binary64 numbers: \<open>py_float x\<close> is the binary64 number nearest to \<open>x\<close>, ties going to
  the even significand, with 53 significant bits and the subnormal spacing \<open>2 ^ (-1074)\<close> at
  the bottom; it is \<open>float(n)\<close> of an integer and the value of a decimal literal of the
  source, and every arithmetic operation is the exact operation followed by \<open>py_float\<close>.
  \<open>round(x, ndigits)\<close> of a float is the decimal rounding of the exact value of \<open>x\<close>, ties
  to even, converted back to binary64. Infinities and NaN, which arise only from
  magnitudes beyond \<open>1.8e308\<close>, are not among the values.
\<close>

fun log2_floor :: "nat \<Rightarrow> nat" where
  "log2_floor n = (if n < 2 then 0 else Suc (log2_floor (n div 2)))"

declare log2_floor.simps [simp del]

text \<open>For \<open>x > 0\<close>, the \<open>e\<close> with \<open>2 ^ e \<le> x < 2 ^ (e + 1)\<close>.\<close>

definition ilog2 :: "rat \<Rightarrow> int" where
  "ilog2 x =
     (if 1 \<le> x then int (log2_floor (nat \<lfloor>x\<rfloor>))
      else let k = log2_floor (nat \<lfloor>1 / x\<rfloor>)
           in if 1 / x = 2 ^ k then - int k else - int k - 1)"

definition pow2 :: "int \<Rightarrow> rat" where
  "pow2 e = (if 0 \<le> e then 2 ^ nat e else 1 / 2 ^ nat (- e))"

definition py_float :: "rat \<Rightarrow> rat" where
  "py_float x =
     (if x = 0 then 0
      else let q = pow2 (max (ilog2 \<bar>x\<bar> - 52) (- 1074))
           in of_int (round_half_even (x / q)) * q)"

definition float_add :: "rat \<Rightarrow> rat \<Rightarrow> rat" where
  "float_add a b = py_float (a + b)"

definition float_sub :: "rat \<Rightarrow> rat \<Rightarrow> rat" where
  "float_sub a b = py_float (a - b)"

definition float_mul :: "rat \<Rightarrow> rat \<Rightarrow> rat" where
  "float_mul a b = py_float (a * b)"

definition float_div :: "rat \<Rightarrow> rat \<Rightarrow> py_error + rat" where
  "float_div a b = (if b = 0 then Inl ZeroDivisionError else Inr (py_float (a / b)))"

definition float_round :: "rat \<Rightarrow> nat \<Rightarrow> rat" where
  "float_round x ndigits = py_float (py_round x ndigits)"

subsection \<open>The points engine on floats\<close>

text \<open>
  \<open>calculate_player_points\<close> once more, operation by operation as the source evaluates
  it: every \<open>float(...)\<close>, literal, \<open>+\<close>, \<open>-\<close>, \<open>*\<close>, \<open>/\<close> and \<open>round\<close> is the binary64
  one, sums associate to the left, and the integer literals \<open>4\<close>, \<open>-6\<close>, \<open>10\<close>, \<open>100\<close>, ...
  are binary64 numbers as they stand.
\<close>

definition duelist_float :: "rat \<Rightarrow> rat \<Rightarrow> rat \<Rightarrow> py_error + rat" where
  "duelist_float acs_v fk fd =
     bind_err (float_div acs_v 10) (\<lambda>a.
       Inr (float_sub (float_add a (float_add fk fd)) (float_mul fd (py_float (9 / 10)))))"

definition initiator_float :: "rat \<Rightarrow> rat \<Rightarrow> rat \<Rightarrow> py_error + rat" where
  "initiator_float assists_v ka_d kast_dec =
     (let safe_kad = (if ka_d > 0 then ka_d else py_float (1 / 1000));
          safe_kast = (if kast_dec > 0 then kast_dec else py_float (1 / 100))
      in bind_err (float_div assists_v safe_kad) (\<lambda>q.
         bind_err (float_div q safe_kast) (\<lambda>q'. Inr (float_add assists_v q'))))"

definition controller_float :: "rat \<Rightarrow> rat \<Rightarrow> rat \<Rightarrow> py_error + rat" where
  "controller_float assists_v kast_v ka_d =
     bind_err (float_div kast_v 10) (\<lambda>k.
       Inr (float_add (float_mul assists_v (py_float (3 / 4))) (float_mul k ka_d)))"

definition sentinel_float :: "rat \<Rightarrow> rat \<Rightarrow> py_error + rat" where
  "sentinel_float acs_v adr_v =
     bind_err (float_div acs_v 10) (\<lambda>a.
     bind_err (float_div adr_v 100) (\<lambda>b.
     bind_err (float_div b (py_float (3 / 2))) (\<lambda>c. Inr (float_add a c))))"

definition calculate_player_points_float ::
  "'a stat_dict_scheme \<Rightarrow> string option \<Rightarrow> py_error + (rat \<times> rat \<times> rat)" where
  "calculate_player_points_float p role_arg =
     (let r = effective_role p role_arg;
          kills_v = py_float (of_int (kills p));
          deaths_v = (if py_float (of_int (deaths p)) = 0 then 1 else py_float (of_int (deaths p)));
          assists_v = py_float (of_int (assists p));
          acs_v = py_float (acs p);
          kast_v = py_float (kast p);
          adr_v = py_float (adr p);
          fk = py_float (of_int (first_kills p));
          fd = py_float (of_int (first_deaths p));
          rating_v = py_float (rating p)
      in bind_err (if kast_v > 0 then float_div kast_v 100 else Inr 0) (\<lambda>kast_dec.
         bind_err (float_div (float_add kills_v assists_v) deaths_v) (\<lambda>ka_d.
         bind_err (float_div kast_dec 5) (\<lambda>kast5.
           let kill_pts = float_mul kills_v 4;
               death_pts = float_mul deaths_v (- 6);
               ast_pts = float_mul assists_v 1;
               acs_kast = float_mul acs_v kast5;
               fk_pts = float_mul fk 2;
               fd_pts = float_mul fd (- 4);
               adr_pts = float_mul adr_v (py_float (2 / 10));
               base = float_round
                 (float_add (float_add (float_add (float_add (float_add (float_add
                    kill_pts death_pts) ast_pts) acs_kast) fk_pts) fd_pts) adr_pts) 4
           in bind_err
                (if r = ''duelist'' then
                   bind_err (duelist_float acs_v fk fd) (\<lambda>role_bonus.
                     Inr (role_bonus, float_add base role_bonus))
                 else if r = ''initiator'' then
                   bind_err (initiator_float assists_v ka_d kast_dec) (\<lambda>role_bonus.
                     Inr (role_bonus, float_add base role_bonus))
                 else if r = ''controller'' then
                   bind_err (controller_float assists_v kast_v ka_d) (\<lambda>role_bonus.
                     Inr (role_bonus, float_add base role_bonus))
                 else if r = ''sentinel'' then
                   bind_err (sentinel_float acs_v adr_v) (\<lambda>role_bonus.
                     Inr (role_bonus, float_add base role_bonus))
                 else if r = ''flex'' then
                   bind_err (duelist_float acs_v fk fd) (\<lambda>d_bonus.
                   bind_err (initiator_float assists_v ka_d kast_dec) (\<lambda>i_bonus.
                   bind_err (controller_float assists_v kast_v ka_d) (\<lambda>c_bonus.
                   bind_err (sentinel_float acs_v adr_v) (\<lambda>s_bonus.
                     let all_bonuses =
                           float_add (float_add (float_add d_bonus i_bonus) c_bonus) s_bonus;
                         rating_bonus =
                           float_mul (float_mul rating_v 10)
                             (float_sub kast_dec (py_float (7 / 10)))
                     in bind_err (float_div all_bonuses 4) (\<lambda>quarter.
                          let total = float_add (float_add base quarter) rating_bonus
                          in Inr (float_sub total base, total))))))
                 else Inr (0, base))
                (\<lambda>(role_bonus, total).
                   Inr (base, float_round role_bonus 4, float_round total 2))))))"

section \<open>scraper.py: row parsing, aggregation and roster stubs\<close>

record match_row = stat_dict +
  match_id :: string
  stats_incomplete :: int
  missing_fields :: string

record leaderboard_dict = stat_dict +
  rounds_played :: nat
  matches_played :: nat
  kd_ratio :: rat
  fk_fd_ratio :: rat
  base_points :: rat
  role_points :: rat
  fantasy_points :: rat

text \<open>The dicts \<open>aggregate_player_stats\<close> returns, and the rows of the table \<open>players\<close>.\<close>

record aggregate_row = leaderboard_dict +
  has_incomplete_matches :: bool

record player_row = leaderboard_dict +
  manual_pts :: rat

subsection \<open>\<open>_parse_row_by_class\<close>, from the KAST cell on\<close>

text \<open>
  The HTML selection is outside the model: \<open>parse_row_by_class\<close> starts from what the
  selectors and \<open>_safe_float\<close>/\<open>_safe_int\<close> delivered. The KAST cell is absent
  (\<open>kast_el is None\<close>), a placeholder (its text is empty, \<open>-\<close> or a dash, for which
  \<open>_safe_float\<close> gives \<open>0.0\<close>), or any other text with its \<open>_safe_float\<close> value.
\<close>

datatype kast_cell = KastAbsent | KastPlaceholder | KastText rat

record parsed_cells =
  c_player_id :: string
  c_tournament_id :: int
  c_match_id :: string
  c_ign :: string
  c_team_abbr :: string
  c_rating :: rat
  c_acs :: rat
  c_kills :: int
  c_deaths :: int
  c_assists :: int
  c_kast :: kast_cell
  c_adr :: rat
  c_first_kills :: int
  c_first_deaths :: int
  c_headshot_pct :: rat

definition kast_raw_of :: "kast_cell \<Rightarrow> rat" where
  "kast_raw_of cell = (case cell of KastText v \<Rightarrow> v | _ \<Rightarrow> 0)"

definition kast_missing_of :: "kast_cell \<Rightarrow> bool" where
  "kast_missing_of cell = (case cell of KastText v \<Rightarrow> False | _ \<Rightarrow> True)"

text \<open>\<open>kast = kast_raw * 100 if 0 < kast_raw <= 1.5 else kast_raw\<close>\<close>

definition normalise_kast :: "rat \<Rightarrow> rat" where
  "normalise_kast kast_raw =
     (if 0 < kast_raw \<and> kast_raw \<le> 3 / 2 then kast_raw * 100 else kast_raw)"

fun join_comma :: "string list \<Rightarrow> string" where
  "join_comma [] = []"
| "join_comma [x] = x"
| "join_comma (x # y # ys) = x @ '','' @ join_comma (y # ys)"

definition parse_row_by_class :: "parsed_cells \<Rightarrow> match_row option" where
  "parse_row_by_class c =
     (if c_ign c = [] then None
      else
        let kast_raw = kast_raw_of (c_kast c);
            kast_v = normalise_kast kast_raw;
            kast_missing = kast_missing_of (c_kast c)
        in if c_kills c = 0 \<and> c_deaths c = 0 \<and> c_acs c = 0 \<and> c_rating c = 0 then None
           else
             let missing = (if kast_missing \<or> kast_v = 0 then [''kast''] else [])
                           @ (if c_adr c = 0 then [''adr''] else []);
                 incomplete = (if missing \<noteq> [] then 1 else 0)
             in Some \<lparr>player_id = c_player_id c, tournament_id = c_tournament_id c,
                       ign = c_ign c, team = c_team_abbr c, role = Some ''flex'',
                       kills = c_kills c, deaths = max (c_deaths c) 1, assists = c_assists c,
                       acs = c_acs c, kast = kast_v, adr = c_adr c,
                       first_kills = c_first_kills c, first_deaths = c_first_deaths c,
                       rating = c_rating c, headshot_pct = c_headshot_pct c,
                       match_id = c_match_id c, stats_incomplete = incomplete,
                       missing_fields = join_comma missing\<rparr>)"

subsection \<open>\<open>aggregate_player_stats\<close>\<close>

text \<open>\<open>buckets[row["player_id"]].append(row)\<close> on a \<open>defaultdict(list)\<close>: keys in order
  of first appearance, each with its rows in input order.\<close>

fun bucket_append :: "(string \<times> match_row list) list \<Rightarrow> match_row \<Rightarrow> (string \<times> match_row list) list" where
  "bucket_append [] row = [(player_id row, [row])]"
| "bucket_append ((k, rs) # bs) row =
     (if k = player_id row then (k, rs @ [row]) # bs else (k, rs) # bucket_append bs row)"

definition buckets :: "match_row list \<Rightarrow> (string \<times> match_row list) list" where
  "buckets match_player_rows = foldl bucket_append [] match_player_rows"

text \<open>
  The points loop of one bucket. \<open>pdata\<close> holds the ten keys the engine reads, with
  \<open>"role"\<close> set to the bucket's role; the row with its role replaced is the same dict on
  those keys.
\<close>

fun points_loop :: "string \<Rightarrow> match_row list \<Rightarrow> rat \<times> rat \<times> rat \<Rightarrow> py_error + (rat \<times> rat \<times> rat)" where
  "points_loop role_v [] totals = Inr totals"
| "points_loop role_v (r # rs) (total_base, total_role, total_pts) =
     (if stats_incomplete r \<noteq> 0 then points_loop role_v rs (total_base, total_role, total_pts)
      else bind_err (calculate_player_points (r\<lparr>role := Some role_v\<rparr>) None) (\<lambda>(bp, rp, tp).
             points_loop role_v rs (total_base + bp, total_role + rp, total_pts + tp)))"

definition aggregate_bucket :: "string \<times> match_row list \<Rightarrow> py_error + aggregate_row" where
  "aggregate_bucket b =
     (case b of (pid, rows) \<Rightarrow>
        (case rows of
           [] \<Rightarrow> Inl IndexError
         | base # _ \<Rightarrow>
             let n = length rows;
                 kills_s = sum_list (map kills rows);
                 deaths_s = sum_list (map deaths rows);
                 assists_s = sum_list (map assists rows);
                 first_kills_s = sum_list (map first_kills rows);
                 first_deaths_s = sum_list (map first_deaths rows)
             in bind_err (py_div (sum_list (map rating rows)) (of_nat n)) (\<lambda>rating_a.
                bind_err (py_div (sum_list (map acs rows)) (of_nat n)) (\<lambda>acs_a.
                bind_err (py_div (sum_list (map kast rows)) (of_nat n)) (\<lambda>kast_a.
                bind_err (py_div (sum_list (map adr rows)) (of_nat n)) (\<lambda>adr_a.
                bind_err (py_div (sum_list (map headshot_pct rows)) (of_nat n)) (\<lambda>headshot_a.
                bind_err (py_div (of_int kills_s) (of_int (max deaths_s 1))) (\<lambda>kd.
                bind_err (py_div (of_int first_kills_s) (of_int (max first_deaths_s 1))) (\<lambda>fkfd.
                  let role_v = (case role base of None \<Rightarrow> ''flex'' | Some s \<Rightarrow> s);
                      has_incomplete = list_ex (\<lambda>r. stats_incomplete r \<noteq> 0) rows
                  in bind_err (points_loop role_v rows (0, 0, 0)) (\<lambda>(total_base, total_role, total_pts).
                       Inr \<lparr>player_id = pid, tournament_id = tournament_id base,
                            ign = ign base, team = team base, role = Some role_v,
                            kills = kills_s, deaths = deaths_s, assists = assists_s,
                            acs = py_round acs_a 2, kast = py_round kast_a 2,
                            adr = py_round adr_a 2,
                            first_kills = first_kills_s, first_deaths = first_deaths_s,
                            rating = py_round rating_a 3,
                            headshot_pct = py_round headshot_a 2,
                            rounds_played = n, matches_played = n,
                            kd_ratio = py_round kd 3, fk_fd_ratio = py_round fkfd 3,
                            base_points = py_round total_base 4,
                            role_points = py_round total_role 4,
                            fantasy_points = py_round total_pts 2,
                            has_incomplete_matches = has_incomplete\<rparr>))))))))))"

fun map_err :: "('a \<Rightarrow> py_error + 'b) \<Rightarrow> 'a list \<Rightarrow> py_error + 'b list" where
  "map_err f [] = Inr []"
| "map_err f (x # xs) = bind_err (f x) (\<lambda>y. bind_err (map_err f xs) (\<lambda>ys. Inr (y # ys)))"

definition aggregate_player_stats :: "match_row list \<Rightarrow> py_error + aggregate_row list" where
  "aggregate_player_stats match_player_rows = map_err aggregate_bucket (buckets match_player_rows)"

subsection \<open>Roster stubs\<close>

text \<open>\<open>_make_player_stub\<close>: a zero-stat dict ready for \<open>upsert_player\<close>.\<close>

definition make_player_stub :: "string \<Rightarrow> int \<Rightarrow> string \<Rightarrow> string \<Rightarrow> player_row" where
  "make_player_stub pid tid ign_v team_full =
     \<lparr>player_id = pid, tournament_id = tid, ign = ign_v, team = team_full,
      role = Some ''flex'', kills = 0, deaths = 0, assists = 0, acs = 0, kast = 0, adr = 0,
      first_kills = 0, first_deaths = 0, rating = 0, headshot_pct = 0,
      rounds_played = 0, matches_played = 0, kd_ratio = 0, fk_fd_ratio = 0,
      base_points = 0, role_points = 0, fantasy_points = 0, manual_pts = 0\<rparr>"

section \<open>database.py: the store\<close>

text \<open>
  Each table is a list of rows in \<open>id\<close> order, except \<open>players\<close> (primary key
  \<open>(player_id, tournament_id)\<close>) and \<open>followed_teams\<close> (unique \<open>fantasy_team_id\<close>), which
  are maps from their key. An \<open>AUTOINCREMENT\<close> id is never reused, so the tables the model
  inserts into carry the next id to hand out. A function of the source that opens a
  connection, runs its statements and commits is a function from the committed store to
  the committed store; a function that raises before \<open>commit\<close> leaves the committed store
  as it was.
\<close>

record roster_row =
  fr_id :: nat
  fr_fantasy_team_id :: int
  fr_player_id :: string
  fr_tournament_id :: int
  fr_role_slot :: string
  fr_is_star :: int
  fr_is_duplicate :: int
  fr_phase :: string

record league_row =
  l_id :: int
  l_tournament_id :: int
  l_phase :: string
  l_total_players :: "int option"

record fantasy_team =
  ft_id :: int
  ft_league_id :: int
  team_name :: string

record match_result =
  mr_tournament_id :: int
  mr_team_name :: string
  mr_result :: string
  mr_format :: string

record point_adjustment =
  pa_fantasy_team_id :: int
  amount :: rat

record trade_row =
  tr_id :: nat
  tr_league_id :: int
  from_team_id :: int
  to_team_id :: int
  from_player_id :: string
  to_player_id :: string
  tr_tournament_id :: int
  tr_status :: string

record draft_session =
  d_id :: nat
  d_league_id :: int
  d_phase :: string
  d_status :: string
  current_pick :: int
  total_picks :: int
  snake_order :: "int list"

record db =
  tournaments :: "int list"
  players :: "string \<times> int \<rightharpoonup> player_row"
  leagues :: "league_row list"
  fantasy_teams :: "fantasy_team list"
  fantasy_roster :: "roster_row list"
  next_roster_id :: nat
  followed_teams :: "int \<rightharpoonup> string"
  match_results :: "match_result list"
  point_adjustments :: "point_adjustment list"
  trades :: "trade_row list"
  draft_sessions :: "draft_session list"
  next_draft_id :: nat

subsection \<open>Leaderboard rows\<close>

text \<open>
  \<open>upsert_player\<close>: \<open>INSERT ... ON CONFLICT(player_id, tournament_id) DO UPDATE\<close>. The
  update leaves \<open>role\<close> and \<open>manual_pts\<close> of the stored row alone; an inserted row gets the
  column default \<open>0.0\<close> for \<open>manual_pts\<close>.
\<close>

definition upsert_player :: "db \<Rightarrow> 'a leaderboard_dict_scheme \<Rightarrow> db" where
  "upsert_player d data =
     (let key = (player_id data, tournament_id data);
          stored_role = (case players d key of None \<Rightarrow> role data | Some old \<Rightarrow> role old);
          stored_manual = (case players d key of None \<Rightarrow> 0 | Some old \<Rightarrow> manual_pts old);
          new_row = \<lparr>player_id = player_id data, tournament_id = tournament_id data,
                     ign = ign data, team = team data, role = stored_role,
                     kills = kills data, deaths = deaths data, assists = assists data,
                     acs = acs data, kast = kast data, adr = adr data,
                     first_kills = first_kills data, first_deaths = first_deaths data,
                     rating = rating data, headshot_pct = headshot_pct data,
                     rounds_played = rounds_played data, matches_played = matches_played data,
                     kd_ratio = kd_ratio data, fk_fd_ratio = fk_fd_ratio data,
                     base_points = base_points data, role_points = role_points data,
                     fantasy_points = fantasy_points data, manual_pts = stored_manual\<rparr>
      in d\<lparr>players := (players d)(key \<mapsto> new_row)\<rparr>)"

text \<open>
  The stub loop of \<open>scrape_source\<close>: for each stub, \<open>SELECT fantasy_points FROM players
  WHERE player_id=? AND tournament_id=?\<close> and \<open>upsert_player(stub)\<close> only when no row came
  back. It returns the store and \<open>stub_count\<close>.
\<close>

fun register_stubs :: "db \<Rightarrow> int \<Rightarrow> player_row list \<Rightarrow> nat \<Rightarrow> db \<times> nat" where
  "register_stubs d tid [] stub_count = (d, stub_count)"
| "register_stubs d tid (stub # stubs) stub_count =
     (case players d (player_id stub, tid) of
        None \<Rightarrow> register_stubs (upsert_player d stub) tid stubs (stub_count + 1)
      | Some existing \<Rightarrow> register_stubs d tid stubs stub_count)"

text \<open>
  \<open>_extract_player_stubs_from_match\<close> and the three approaches of
  \<open>scrape_event_rosters\<close> build every stub with \<open>_make_player_stub(pid, tournament_id, ...)\<close>
  from a link found on the page; a found link is its derived player id, name and team.
\<close>

definition stubs_of_links :: "(string \<times> string \<times> string) list \<Rightarrow> int \<Rightarrow> player_row list" where
  "stubs_of_links links tid = map (\<lambda>(pid, ign_v, team_full). make_player_stub pid tid ign_v team_full) links"

text \<open>\<open>_register\<close> of \<open>scrape_event_rosters\<close>, with its \<open>seen_ids\<close> set.\<close>

definition register :: "int \<Rightarrow> string list \<times> db \<Rightarrow> player_row \<Rightarrow> string list \<times> db" where
  "register tid state player_dict =
     (case state of (seen_ids, d) \<Rightarrow>
        let pid = player_id player_dict
        in if List.member seen_ids pid then (seen_ids, d)
           else (pid # seen_ids,
                 (case players d (pid, tid) of
                    None \<Rightarrow> upsert_player d player_dict
                  | Some existing \<Rightarrow> d)))"

subsection \<open>Standings\<close>

definition get_league :: "db \<Rightarrow> int \<Rightarrow> league_row option" where
  "get_league d league_id =
     find (\<lambda>l. l_id l = league_id \<and> List.member (tournaments d) (l_tournament_id l)) (leagues d)"

definition get_teams_in_league :: "db \<Rightarrow> int \<Rightarrow> fantasy_team list" where
  "get_teams_in_league d league_id =
     sort_key ft_id (filter (\<lambda>t. ft_league_id t = league_id) (fantasy_teams d))"

text \<open>\<open>get_roster\<close>: the roster rows of a team joined with their leaderboard row; a
  falsy \<open>phase\<close> selects every phase.\<close>

definition get_roster :: "db \<Rightarrow> int \<Rightarrow> string \<Rightarrow> (player_row \<times> roster_row) list" where
  "get_roster d fantasy_team_id phase =
     List.map_filter
       (\<lambda>fr. map_option (\<lambda>p. (p, fr)) (players d (fr_player_id fr, fr_tournament_id fr)))
       (if phase \<noteq> [] then
          sort_key fr_role_slot
            (filter (\<lambda>fr. fr_fantasy_team_id fr = fantasy_team_id \<and> fr_phase fr = phase)
               (fantasy_roster d))
        else
          sort_key fr_phase (sort_key fr_role_slot
            (filter (\<lambda>fr. fr_fantasy_team_id fr = fantasy_team_id) (fantasy_roster d))))"

definition get_followed_team :: "db \<Rightarrow> int \<Rightarrow> string option" where
  "get_followed_team d fantasy_team_id = followed_teams d fantasy_team_id"

definition get_match_results :: "db \<Rightarrow> int \<Rightarrow> string \<Rightarrow> match_result list" where
  "get_match_results d tid team_name_v =
     rev (filter (\<lambda>r. mr_tournament_id r = tid \<and> (team_name_v = [] \<or> mr_team_name r = team_name_v))
            (match_results d))"

definition calculate_team_follow_points :: "db \<Rightarrow> int \<Rightarrow> int \<Rightarrow> rat" where
  "calculate_team_follow_points d fantasy_team_id tid =
     (case get_followed_team d fantasy_team_id of
        None \<Rightarrow> 0
      | Some followed \<Rightarrow>
          foldl (\<lambda>pts r.
                  if mr_result r = ''win''
                  then pts + (if mr_format r = ''bo3'' then 100 else 75)
                  else pts + (if mr_format r = ''bo3'' then - 75 else - 50))
            0 (get_match_results d tid followed))"

definition get_total_adjustments :: "db \<Rightarrow> int \<Rightarrow> rat" where
  "get_total_adjustments d fantasy_team_id =
     sum_list (map amount (filter (\<lambda>a. pa_fantasy_team_id a = fantasy_team_id) (point_adjustments d)))"

record standing =
  s_id :: int
  s_team_name :: string
  player_pts :: rat
  star_bonus :: rat
  follow_pts :: rat
  adj_pts :: rat
  total_points :: rat
  player_count :: nat
  s_phase :: string
  followed_team :: "string option"

text \<open>The loop over the roster inside \<open>get_phase_standings\<close>, on \<open>(player_pts, star_bonus)\<close>.\<close>

fun roster_loop :: "(player_row \<times> roster_row) list \<Rightarrow> rat \<times> rat \<Rightarrow> rat \<times> rat" where
  "roster_loop [] acc = acc"
| "roster_loop ((p, fr) # rest) (player_pts_v, star_bonus_v) =
     (let base_pts = fantasy_points p + manual_pts p
      in roster_loop rest
           (player_pts_v + base_pts,
            if fr_is_star fr \<noteq> 0 then star_bonus_v + base_pts * (1 / 2) else star_bonus_v))"

definition team_standing :: "db \<Rightarrow> league_row \<Rightarrow> string \<Rightarrow> fantasy_team \<Rightarrow> standing" where
  "team_standing d league phase t =
     (let roster = get_roster d (ft_id t) phase
      in case roster_loop roster (0, 0) of (player_pts_v, star_bonus_v) \<Rightarrow>
         let follow_pts_v = calculate_team_follow_points d (ft_id t) (l_tournament_id league);
             adj_pts_v = get_total_adjustments d (ft_id t);
             total = py_round (player_pts_v + star_bonus_v + follow_pts_v + adj_pts_v) 2
         in \<lparr>s_id = ft_id t, s_team_name = team_name t,
             player_pts = py_round player_pts_v 2, star_bonus = py_round star_bonus_v 2,
             follow_pts = py_round follow_pts_v 2, adj_pts = py_round adj_pts_v 2,
             total_points = total, player_count = length roster, s_phase = phase,
             followed_team = get_followed_team d (ft_id t)\<rparr>)"

text \<open>\<open>standings.sort(key=lambda x: x["total_points"], reverse=True)\<close> is a stable
  descending sort: the stable ascending sort on the negated key.\<close>

definition get_phase_standings :: "db \<Rightarrow> int \<Rightarrow> string \<Rightarrow> standing list" where
  "get_phase_standings d league_id phase =
     (case get_league d league_id of
        None \<Rightarrow> []
      | Some league \<Rightarrow>
          sort_key (\<lambda>x. - total_points x)
            (map (team_standing d league phase) (get_teams_in_league d league_id)))"

record overall_standing =
  o_id :: int
  o_team_name :: string
  swiss_pts :: rat
  playoffs_pts :: rat
  o_total_points :: rat
  o_player_count :: nat
  o_followed_team :: "string option"

text \<open>\<open>{s["id"]: s for s in ...}\<close>: for a repeated key the last entry stays.\<close>

definition dict_by_id :: "standing list \<Rightarrow> int \<rightharpoonup> standing" where
  "dict_by_id xs = map_of (rev (map (\<lambda>s. (s_id s, s)) xs))"

definition get_overall_standings :: "db \<Rightarrow> int \<Rightarrow> overall_standing list" where
  "get_overall_standings d league_id =
     (let swiss = dict_by_id (get_phase_standings d league_id ''swiss'');
          playoffs = dict_by_id (get_phase_standings d league_id ''playoffs'');
          teams = get_teams_in_league d league_id
      in sort_key (\<lambda>x. - o_total_points x)
           (map (\<lambda>t.
                  let s_pts = (case swiss (ft_id t) of None \<Rightarrow> 0 | Some s \<Rightarrow> total_points s);
                      p_pts = (case playoffs (ft_id t) of None \<Rightarrow> 0 | Some s \<Rightarrow> total_points s)
                  in \<lparr>o_id = ft_id t, o_team_name = team_name t,
                      swiss_pts = s_pts, playoffs_pts = p_pts,
                      o_total_points = py_round (s_pts + p_pts) 2,
                      o_player_count =
                        (case swiss (ft_id t) of None \<Rightarrow> 0 | Some s \<Rightarrow> player_count s),
                      o_followed_team =
                        (case swiss (ft_id t) of None \<Rightarrow> None | Some s \<Rightarrow> followed_team s)\<rparr>)
              teams))"

subsection \<open>Roster operations\<close>

text \<open>
  \<open>INSERT INTO fantasy_roster\<close>: the new row takes the next id and the column default
  \<open>is_star = 0\<close>. The statement raises \<open>sqlite3.IntegrityError\<close> when the team id is not
  in \<open>fantasy_teams\<close> (foreign keys are switched on by \<open>get_connection\<close>) or when a row with
  the same \<open>(fantasy_team_id, player_id, phase)\<close> exists.
\<close>

definition insert_roster ::
  "db \<Rightarrow> int \<Rightarrow> string \<Rightarrow> int \<Rightarrow> string \<Rightarrow> string \<Rightarrow> int \<Rightarrow> py_error + db" where
  "insert_roster d team_v pid tid role_slot phase is_dup =
     (if \<not> list_ex (\<lambda>t. ft_id t = team_v) (fantasy_teams d)
         \<or> list_ex (\<lambda>fr. fr_fantasy_team_id fr = team_v \<and> fr_player_id fr = pid \<and> fr_phase fr = phase)
              (fantasy_roster d)
      then Inl IntegrityError
      else Inr (d\<lparr>fantasy_roster := fantasy_roster d @
                    [\<lparr>fr_id = next_roster_id d, fr_fantasy_team_id = team_v, fr_player_id = pid,
                      fr_tournament_id = tid, fr_role_slot = role_slot, fr_is_star = 0,
                      fr_is_duplicate = is_dup, fr_phase = phase\<rparr>],
                  next_roster_id := Suc (next_roster_id d)\<rparr>))"

definition add_player_to_roster ::
  "db \<Rightarrow> int \<Rightarrow> string \<Rightarrow> int \<Rightarrow> string \<Rightarrow> string \<Rightarrow> int \<Rightarrow> bool \<times> db" where
  "add_player_to_roster d fantasy_team_id pid tid role_slot phase is_duplicate =
     (case insert_roster d fantasy_team_id pid tid role_slot phase is_duplicate of
        Inr d' \<Rightarrow> (True, d')
      | Inl e \<Rightarrow> (False, d))"

text \<open>\<open>DELETE FROM fantasy_roster WHERE fantasy_team_id=? AND player_id=? [AND phase=?]\<close>\<close>

definition delete_roster :: "roster_row list \<Rightarrow> int \<Rightarrow> string \<Rightarrow> string option \<Rightarrow> roster_row list" where
  "delete_roster rows team_v pid phase =
     filter (\<lambda>fr. \<not> (fr_fantasy_team_id fr = team_v \<and> fr_player_id fr = pid
                     \<and> (case phase of None \<Rightarrow> True | Some ph \<Rightarrow> fr_phase fr = ph))) rows"

definition remove_player_from_roster :: "db \<Rightarrow> int \<Rightarrow> string \<Rightarrow> string option \<Rightarrow> db" where
  "remove_player_from_roster d fantasy_team_id pid phase =
     (if phase \<noteq> None \<and> phase \<noteq> Some []
      then d\<lparr>fantasy_roster := delete_roster (fantasy_roster d) fantasy_team_id pid phase\<rparr>
      else d\<lparr>fantasy_roster := delete_roster (fantasy_roster d) fantasy_team_id pid None\<rparr>)"

text \<open>The two statements of \<open>set_star_player\<close>, run on one connection and committed
  together.\<close>

definition clear_star_stmt :: "roster_row list \<Rightarrow> int \<Rightarrow> string \<Rightarrow> roster_row list" where
  "clear_star_stmt rows team_v phase =
     map (\<lambda>fr. if fr_fantasy_team_id fr = team_v \<and> fr_phase fr = phase
               then fr\<lparr>fr_is_star := 0\<rparr> else fr) rows"

definition mark_star_stmt :: "roster_row list \<Rightarrow> int \<Rightarrow> string \<Rightarrow> string \<Rightarrow> roster_row list" where
  "mark_star_stmt rows team_v pid phase =
     map (\<lambda>fr. if fr_fantasy_team_id fr = team_v \<and> fr_player_id fr = pid \<and> fr_phase fr = phase
               then fr\<lparr>fr_is_star := 1\<rparr> else fr) rows"

definition set_star_player :: "db \<Rightarrow> int \<Rightarrow> string \<Rightarrow> string \<Rightarrow> db" where
  "set_star_player d fantasy_team_id pid phase =
     d\<lparr>fantasy_roster :=
         mark_star_stmt (clear_star_stmt (fantasy_roster d) fantasy_team_id phase)
           fantasy_team_id pid phase\<rparr>"

definition clear_star_player :: "db \<Rightarrow> int \<Rightarrow> string \<Rightarrow> db" where
  "clear_star_player d fantasy_team_id phase =
     d\<lparr>fantasy_roster := clear_star_stmt (fantasy_roster d) fantasy_team_id phase\<rparr>"

text \<open>\<open>transition_to_playoffs\<close>: per team of the league, per player of its swiss roster
  as read at that point, one \<open>DELETE\<close> unless the pair is kept.\<close>

definition drop_unkept :: "(int \<times> string) list \<Rightarrow> int \<Rightarrow> roster_row list \<Rightarrow> string \<Rightarrow> roster_row list" where
  "drop_unkept kept_player_ids tid rows pid =
     (if List.member kept_player_ids (tid, pid) then rows
      else delete_roster rows tid pid (Some ''swiss''))"

definition transition_team :: "(int \<times> string) list \<Rightarrow> roster_row list \<Rightarrow> int \<Rightarrow> roster_row list" where
  "transition_team kept_player_ids rows tid =
     foldl (drop_unkept kept_player_ids tid) rows
       (map fr_player_id
          (filter (\<lambda>fr. fr_fantasy_team_id fr = tid \<and> fr_phase fr = ''swiss'') rows))"

definition transition_to_playoffs :: "db \<Rightarrow> int \<Rightarrow> (int \<times> string) list \<Rightarrow> db" where
  "transition_to_playoffs d league_id kept_player_ids =
     d\<lparr>fantasy_roster :=
         foldl (transition_team kept_player_ids) (fantasy_roster d)
           (map ft_id (filter (\<lambda>t. ft_league_id t = league_id) (fantasy_teams d))),
       leagues := map (\<lambda>l. if l_id l = league_id then l\<lparr>l_phase := ''playoffs''\<rparr> else l) (leagues d)\<rparr>"

definition delete_fantasy_team :: "db \<Rightarrow> int \<Rightarrow> db" where
  "delete_fantasy_team d team_id =
     d\<lparr>fantasy_roster := filter (\<lambda>fr. fr_fantasy_team_id fr \<noteq> team_id) (fantasy_roster d),
       followed_teams := (followed_teams d)(team_id := None),
       point_adjustments := filter (\<lambda>a. pa_fantasy_team_id a \<noteq> team_id) (point_adjustments d),
       fantasy_teams := filter (\<lambda>t. ft_id t \<noteq> team_id) (fantasy_teams d)\<rparr>"

text \<open>\<open>_delete_league_cascade\<close>: the three per-team deletes for each team of the league,
  then the league's teams, trades, draft sessions and the league.\<close>

definition delete_league_cascade :: "db \<Rightarrow> int \<Rightarrow> db" where
  "delete_league_cascade d league_id =
     (let d1 = foldl (\<lambda>dd t.
                  dd\<lparr>fantasy_roster := filter (\<lambda>fr. fr_fantasy_team_id fr \<noteq> t) (fantasy_roster dd),
                     followed_teams := (followed_teams dd)(t := None),
                     point_adjustments :=
                       filter (\<lambda>a. pa_fantasy_team_id a \<noteq> t) (point_adjustments dd)\<rparr>)
                d (map ft_id (filter (\<lambda>t. ft_league_id t = league_id) (fantasy_teams d)))
      in d1\<lparr>fantasy_teams := filter (\<lambda>t. ft_league_id t \<noteq> league_id) (fantasy_teams d1),
            trades := filter (\<lambda>t. tr_league_id t \<noteq> league_id) (trades d1),
            draft_sessions := filter (\<lambda>s. d_league_id s \<noteq> league_id) (draft_sessions d1),
            leagues := filter (\<lambda>l. l_id l \<noteq> league_id) (leagues d1)\<rparr>)"

definition delete_league :: "db \<Rightarrow> int \<Rightarrow> db" where
  "delete_league d league_id = delete_league_cascade d league_id"

text \<open>\<open>delete_tournament\<close>, on the tables of the model (event sources are not among
  them).\<close>

definition delete_tournament :: "db \<Rightarrow> int \<Rightarrow> db" where
  "delete_tournament d tid =
     (let d1 = d\<lparr>players := (\<lambda>k. if snd k = tid then None else players d k)\<rparr>;
          d2 = foldl delete_league_cascade d1
                 (map l_id (filter (\<lambda>l. l_tournament_id l = tid) (leagues d1)))
      in d2\<lparr>match_results := filter (\<lambda>r. mr_tournament_id r \<noteq> tid) (match_results d2),
            tournaments := filter (\<lambda>t. t \<noteq> tid) (tournaments d2)\<rparr>)"

subsection \<open>Trades\<close>

text \<open>
  \<open>resolve_trade\<close>. The two slot queries select on \<open>fantasy_team_id\<close> and \<open>player_id\<close>
  with no \<open>ORDER BY\<close>; SQLite answers them from the index of
  \<open>UNIQUE(fantasy_team_id, player_id, phase)\<close>, so \<open>fetchone()\<close> is the matching row with the
  smallest phase (\<open>'playoffs'\<close> before \<open>'swiss'\<close>). The four swap statements run on the
  connection that is committed at the end; an \<open>IntegrityError\<close> out of an \<open>INSERT\<close> is not
  caught, so it leaves the function before \<open>commit\<close> and the committed store is the one
  from before the call.
\<close>

definition fetch_slot :: "db \<Rightarrow> int \<Rightarrow> string \<Rightarrow> roster_row option" where
  "fetch_slot d team_v pid =
     (case sort_key fr_phase
             (filter (\<lambda>fr. fr_fantasy_team_id fr = team_v \<and> fr_player_id fr = pid)
                (fantasy_roster d)) of
        [] \<Rightarrow> None
      | fr # rest \<Rightarrow> Some fr)"

definition swap_players :: "db \<Rightarrow> trade_row \<Rightarrow> roster_row \<Rightarrow> roster_row \<Rightarrow> py_error + db" where
  "swap_players d trade from_slot to_slot =
     (let d1 = d\<lparr>fantasy_roster :=
                   delete_roster (fantasy_roster d) (from_team_id trade) (from_player_id trade) None\<rparr>;
          d2 = d1\<lparr>fantasy_roster :=
                   delete_roster (fantasy_roster d1) (to_team_id trade) (to_player_id trade) None\<rparr>
      in bind_err (insert_roster d2 (from_team_id trade) (to_player_id trade)
                     (tr_tournament_id trade) (fr_role_slot from_slot) (fr_phase from_slot) 0) (\<lambda>d3.
                   insert_roster d3 (to_team_id trade) (from_player_id trade)
                     (tr_tournament_id trade) (fr_role_slot to_slot) (fr_phase to_slot) 0))"

definition set_trade_status :: "db \<Rightarrow> nat \<Rightarrow> string \<Rightarrow> db" where
  "set_trade_status d trade_id action =
     d\<lparr>trades := map (\<lambda>t. if tr_id t = trade_id then t\<lparr>tr_status := action\<rparr> else t) (trades d)\<rparr>"

definition resolve_trade :: "db \<Rightarrow> nat \<Rightarrow> string \<Rightarrow> (py_error + bool) \<times> db" where
  "resolve_trade d trade_id action =
     (case find (\<lambda>t. tr_id t = trade_id) (trades d) of
        None \<Rightarrow> (Inr False, d)
      | Some trade \<Rightarrow>
          if tr_status trade \<noteq> ''pending'' then (Inr False, d)
          else if action = ''accepted'' then
            (case (fetch_slot d (from_team_id trade) (from_player_id trade),
                   fetch_slot d (to_team_id trade) (to_player_id trade)) of
               (Some from_slot, Some to_slot) \<Rightarrow>
                 (case swap_players d trade from_slot to_slot of
                    Inl e \<Rightarrow> (Inl e, d)
                  | Inr d' \<Rightarrow> (Inr True, set_trade_status d' trade_id action))
             | _ \<Rightarrow> (Inr True, set_trade_status d trade_id action))
          else (Inr True, set_trade_status d trade_id action))"

subsection \<open>Draft\<close>

definition get_ruleset_total_players :: "db \<Rightarrow> int \<Rightarrow> int" where
  "get_ruleset_total_players d league_id =
     (case find (\<lambda>l. l_id l = league_id) (leagues d) of
        None \<Rightarrow> 10
      | Some row \<Rightarrow> (case l_total_players row of None \<Rightarrow> 10 | Some v \<Rightarrow> v))"

text \<open>
  \<open>while len(snake) < total_players * n: snake += forward if round_num % 2 == 0 else
  backward; round_num += 1\<close>. The loop need not end (it does not for an empty \<open>forward\<close> and a
  positive bound), so its result is an option: \<open>None\<close> is a loop that never returns.
\<close>

partial_function (option) snake_loop ::
  "nat list \<Rightarrow> nat list \<Rightarrow> int \<Rightarrow> nat list \<Rightarrow> nat \<Rightarrow> nat list option" where
  "snake_loop forward backward bound snake round_num =
     (if int (length snake) < bound
      then snake_loop forward backward bound
             (snake @ (if round_num mod 2 = 0 then forward else backward)) (round_num + 1)
      else Some snake)"

declare snake_loop.simps [code]

text \<open>\<open>xs[:k]\<close>: a negative \<open>k\<close> counts from the end.\<close>

definition py_slice_to :: "'a list \<Rightarrow> int \<Rightarrow> 'a list" where
  "py_slice_to xs k = (if 0 \<le> k then take (nat k) xs else take (nat (int (length xs) + k)) xs)"

text \<open>
  \<open>create_draft_session\<close> returns the new session id, or \<open>None\<close> without a store change
  when the league has no teams or does not exist. The indices in \<open>snake\<close> come from
  \<open>range(n)\<close>, so \<open>team_ids[i]\<close> is always in range.
\<close>

definition create_draft_session :: "db \<Rightarrow> int \<Rightarrow> string \<Rightarrow> (nat option \<times> db) option" where
  "create_draft_session d league_id phase =
     (let teams = get_teams_in_league d league_id;
          league = get_league d league_id
      in if teams = [] \<or> league = None then Some (None, d)
         else
           let total_players = get_ruleset_total_players d league_id;
               n = length teams;
               forward = [0..<n];
               backward = rev [0..<n]
           in case snake_loop forward backward (total_players * int n) [] 0 of
                None \<Rightarrow> None
              | Some snake0 \<Rightarrow>
                  let snake = py_slice_to snake0 (total_players * int n);
                      team_ids = map ft_id teams;
                      snake_team_ids = map (\<lambda>i. team_ids ! i) snake;
                      did = next_draft_id d
                  in Some (Some did,
                           d\<lparr>draft_sessions := draft_sessions d @
                                [\<lparr>d_id = did, d_league_id = league_id, d_phase = phase,
                                  d_status = ''active'', current_pick = 1,
                                  total_picks = total_players * int n,
                                  snake_order = snake_team_ids\<rparr>],
                             next_draft_id := Suc did\<rparr>))"

definition advance_draft :: "db \<Rightarrow> nat \<Rightarrow> db" where
  "advance_draft d draft_id =
     (case find (\<lambda>s. d_id s = draft_id) (draft_sessions d) of
        None \<Rightarrow> d
      | Some draft \<Rightarrow>
          let new_pick = current_pick draft + 1
          in if new_pick > total_picks draft
             then d\<lparr>draft_sessions :=
                      map (\<lambda>s. if d_id s = draft_id
                                then s\<lparr>d_status := ''complete'', current_pick := new_pick\<rparr> else s)
                        (draft_sessions d)\<rparr>
             else d\<lparr>draft_sessions :=
                      map (\<lambda>s. if d_id s = draft_id then s\<lparr>current_pick := new_pick\<rparr> else s)
                        (draft_sessions d)\<rparr>)"

text \<open>\<open>order[idx]\<close>: a negative index counts from the end, and raises \<open>IndexError\<close>
  below \<open>-len(order)\<close>.\<close>

definition get_current_drafter :: "db \<Rightarrow> nat \<Rightarrow> py_error + int option" where
  "get_current_drafter d draft_id =
     (case find (\<lambda>s. d_id s = draft_id) (draft_sessions d) of
        None \<Rightarrow> Inr None
      | Some draft \<Rightarrow>
          let order = snake_order draft;
              idx = current_pick draft - 1
          in if idx \<ge> int (length order) then Inr None
             else if 0 \<le> idx then Inr (Some (order ! nat idx))
             else if - int (length order) \<le> idx then Inr (Some (order ! nat (int (length order) + idx)))
             else Inl IndexError)"

section \<open>The scoring rules in the specification's words\<close>

text \<open>
  These follow the specification's formulas, not the code: \<open>kastFraction\<close>, \<open>kad\<close>, the
  base sum, the four role bonuses with their safe denominators, and the rounding of the
  three results. \<open>deaths_floor\<close> is the deaths value the formulas use, a recorded \<open>0\<close>
  counting as \<open>1\<close>.
\<close>

definition kast_fraction :: "'a stat_dict_scheme \<Rightarrow> rat" where
  "kast_fraction p = (if kast p \<le> 0 then 0 else kast p / 100)"

definition deaths_floor :: "'a stat_dict_scheme \<Rightarrow> rat" where
  "deaths_floor p = (if deaths p = 0 then 1 else of_int (deaths p))"

definition kad :: "'a stat_dict_scheme \<Rightarrow> rat" where
  "kad p = (of_int (kills p) + of_int (assists p)) / deaths_floor p"

definition spec_base :: "'a stat_dict_scheme \<Rightarrow> rat" where
  "spec_base p =
     of_int (kills p) * 4 + deaths_floor p * (- 6) + of_int (assists p) * 1
     + acs p * (kast_fraction p / 5) + of_int (first_kills p) * 2
     + of_int (first_deaths p) * (- 4) + adr p * (2 / 10)"

definition spec_duelist_bonus :: "'a stat_dict_scheme \<Rightarrow> rat" where
  "spec_duelist_bonus p =
     acs p / 10 + of_int (first_kills p) + (1 / 10) * of_int (first_deaths p)"

definition spec_initiator_bonus :: "'a stat_dict_scheme \<Rightarrow> rat" where
  "spec_initiator_bonus p =
     (let kad_safe = (if kad p \<le> 0 then 1 / 1000 else kad p);
          kast_fraction_safe = (if kast_fraction p \<le> 0 then 1 / 100 else kast_fraction p)
      in of_int (assists p) + (of_int (assists p) / kad_safe) / kast_fraction_safe)"

definition spec_controller_bonus :: "'a stat_dict_scheme \<Rightarrow> rat" where
  "spec_controller_bonus p = of_int (assists p) * (3 / 4) + (kast p / 10) * kad p"

definition spec_sentinel_bonus :: "'a stat_dict_scheme \<Rightarrow> rat" where
  "spec_sentinel_bonus p = acs p / 10 + (adr p / 100) / (3 / 2)"

definition spec_score :: "'a stat_dict_scheme \<Rightarrow> string \<Rightarrow> rat \<times> rat \<times> rat" where
  "spec_score p r =
     (let base = py_round (spec_base p) 4
      in if r = ''duelist'' then
           (base, py_round (spec_duelist_bonus p) 4, py_round (base + spec_duelist_bonus p) 2)
         else if r = ''initiator'' then
           (base, py_round (spec_initiator_bonus p) 4, py_round (base + spec_initiator_bonus p) 2)
         else if r = ''controller'' then
           (base, py_round (spec_controller_bonus p) 4, py_round (base + spec_controller_bonus p) 2)
         else if r = ''sentinel'' then
           (base, py_round (spec_sentinel_bonus p) 4, py_round (base + spec_sentinel_bonus p) 2)
         else if r = ''flex'' then
           (let total = base
                  + (spec_duelist_bonus p + spec_initiator_bonus p
                     + spec_controller_bonus p + spec_sentinel_bonus p) / 4
                  + rating p * 10 * (kast_fraction p - 7 / 10)
            in (base, py_round (total - base) 4, py_round total 2))
         else (base, 0, py_round base 2))"

section \<open>The scoring rules on floats, in the specification's words\<close>

text \<open>
  The formulas of the specification with every operation the binary64 one, evaluated
  from left to right as written. \<open>duelist_bonus_float\<close> is the expression the source
  evaluates, \<open>acs/10 + (firstKills + firstDeaths) - firstDeaths*0.9\<close>;
  \<open>table_duelist_bonus_float\<close> is the entry of the specification's table,
  \<open>acs/10 + firstKills + 0.1*firstDeaths\<close>. The two denote the same rational in exact
  arithmetic.
\<close>

definition stat_float :: "int \<Rightarrow> rat" where
  "stat_float n = py_float (of_int n)"

definition deaths_clamped :: "'a stat_dict_scheme \<Rightarrow> rat" where
  "deaths_clamped p = (if stat_float (deaths p) = 0 then 1 else stat_float (deaths p))"

definition kast_fraction_float :: "'a stat_dict_scheme \<Rightarrow> rat" where
  "kast_fraction_float p =
     (if py_float (kast p) > 0 then py_float (py_float (kast p) / 100) else 0)"

definition kad_float :: "'a stat_dict_scheme \<Rightarrow> rat" where
  "kad_float p =
     py_float (float_add (stat_float (kills p)) (stat_float (assists p)) / deaths_clamped p)"

definition base_float :: "'a stat_dict_scheme \<Rightarrow> rat" where
  "base_float p =
     float_round
       (float_add (float_add (float_add (float_add (float_add (float_add
          (float_mul (stat_float (kills p)) 4)
          (float_mul (deaths_clamped p) (- 6)))
          (float_mul (stat_float (assists p)) 1))
          (float_mul (py_float (acs p)) (py_float (kast_fraction_float p / 5))))
          (float_mul (stat_float (first_kills p)) 2))
          (float_mul (stat_float (first_deaths p)) (- 4)))
          (float_mul (py_float (adr p)) (py_float (2 / 10)))) 4"

definition duelist_bonus_float :: "'a stat_dict_scheme \<Rightarrow> rat" where
  "duelist_bonus_float p =
     float_sub
       (float_add (py_float (py_float (acs p) / 10))
          (float_add (stat_float (first_kills p)) (stat_float (first_deaths p))))
       (float_mul (stat_float (first_deaths p)) (py_float (9 / 10)))"

definition table_duelist_bonus_float :: "'a stat_dict_scheme \<Rightarrow> rat" where
  "table_duelist_bonus_float p =
     float_add
       (float_add (py_float (py_float (acs p) / 10)) (stat_float (first_kills p)))
       (float_mul (py_float (1 / 10)) (stat_float (first_deaths p)))"

definition initiator_bonus_float :: "'a stat_dict_scheme \<Rightarrow> rat" where
  "initiator_bonus_float p =
     (let kad_safe = (if kad_float p > 0 then kad_float p else py_float (1 / 1000));
          kast_fraction_safe =
            (if kast_fraction_float p > 0 then kast_fraction_float p else py_float (1 / 100))
      in float_add (stat_float (assists p))
           (py_float (py_float (stat_float (assists p) / kad_safe) / kast_fraction_safe)))"

definition controller_bonus_float :: "'a stat_dict_scheme \<Rightarrow> rat" where
  "controller_bonus_float p =
     float_add (float_mul (stat_float (assists p)) (py_float (3 / 4)))
       (float_mul (py_float (py_float (kast p) / 10)) (kad_float p))"

definition sentinel_bonus_float :: "'a stat_dict_scheme \<Rightarrow> rat" where
  "sentinel_bonus_float p =
     float_add (py_float (py_float (acs p) / 10))
       (py_float (py_float (py_float (adr p) / 100) / py_float (3 / 2)))"

definition flex_total_float :: "'a stat_dict_scheme \<Rightarrow> rat" where
  "flex_total_float p =
     float_add
       (float_add (base_float p)
          (py_float
             (float_add (float_add (float_add (duelist_bonus_float p) (initiator_bonus_float p))
                (controller_bonus_float p)) (sentinel_bonus_float p) / 4)))
       (float_mul (float_mul (py_float (rating p)) 10)
          (float_sub (kast_fraction_float p) (py_float (7 / 10))))"

definition role_bonus_float :: "'a stat_dict_scheme \<Rightarrow> string \<Rightarrow> rat" where
  "role_bonus_float p r =
     (if r = ''duelist'' then duelist_bonus_float p
      else if r = ''initiator'' then initiator_bonus_float p
      else if r = ''controller'' then controller_bonus_float p
      else if r = ''sentinel'' then sentinel_bonus_float p
      else if r = ''flex'' then float_sub (flex_total_float p) (base_float p)
      else 0)"

definition total_float :: "'a stat_dict_scheme \<Rightarrow> string \<Rightarrow> rat" where
  "total_float p r =
     (if r = ''duelist'' \<or> r = ''initiator'' \<or> r = ''controller'' \<or> r = ''sentinel''
      then float_add (base_float p) (role_bonus_float p r)
      else if r = ''flex'' then flex_total_float p
      else base_float p)"

text \<open>The total the table's duelist entry gives.\<close>

definition table_duelist_total_float :: "'a stat_dict_scheme \<Rightarrow> rat" where
  "table_duelist_total_float p =
     float_round (float_add (base_float p) (table_duelist_bonus_float p)) 2"

section \<open>The roster table's invariants\<close>

text \<open>
  The key of the table's \<open>UNIQUE(fantasy_team_id, player_id, phase)\<close> constraint, the
  number of starred entries of a team in a phase, and the two invariants: keys are
  distinct, and no team has two starred entries in one phase.
\<close>

definition roster_key :: "roster_row \<Rightarrow> int \<times> string \<times> string" where
  "roster_key fr = (fr_fantasy_team_id fr, fr_player_id fr, fr_phase fr)"

definition star_count :: "roster_row list \<Rightarrow> int \<Rightarrow> string \<Rightarrow> nat" where
  "star_count rows team_v phase =
     length (filter (\<lambda>fr. fr_fantasy_team_id fr = team_v \<and> fr_phase fr = phase
                          \<and> fr_is_star fr \<noteq> 0) rows)"

definition roster_ok :: "roster_row list \<Rightarrow> bool" where
  "roster_ok rows =
     (distinct (map roster_key rows)
      \<and> list_all (\<lambda>fr. star_count rows (fr_fantasy_team_id fr) (fr_phase fr) \<le> 1) rows)"

text \<open>Every function of \<open>database.py\<close> that writes to \<open>fantasy_roster\<close>.\<close>

datatype roster_op =
    AddPlayerToRoster int string int string string int
  | RemovePlayerFromRoster int string "string option"
  | SetStarPlayer int string string
  | ClearStarPlayer int string
  | TransitionToPlayoffs int "(int \<times> string) list"
  | ResolveTrade nat string
  | DeleteFantasyTeam int
  | DeleteLeague int
  | DeleteTournament int

fun run_op :: "db \<Rightarrow> roster_op \<Rightarrow> db" where
  "run_op d (AddPlayerToRoster t pid tid slot phase dup) =
     snd (add_player_to_roster d t pid tid slot phase dup)"
| "run_op d (RemovePlayerFromRoster t pid phase) = remove_player_from_roster d t pid phase"
| "run_op d (SetStarPlayer t pid phase) = set_star_player d t pid phase"
| "run_op d (ClearStarPlayer t phase) = clear_star_player d t phase"
| "run_op d (TransitionToPlayoffs league_id kept) = transition_to_playoffs d league_id kept"
| "run_op d (ResolveTrade trade_id action) = snd (resolve_trade d trade_id action)"
| "run_op d (DeleteFantasyTeam t) = delete_fantasy_team d t"
| "run_op d (DeleteLeague league_id) = delete_league d league_id"
| "run_op d (DeleteTournament tid) = delete_tournament d tid"

section \<open>The standings total in the specification's words\<close>

text \<open>
  Sums over a team's phase roster (leaderboard row joined with roster entry), over the
  followed team's match results, and over the team's adjustments.
\<close>

definition spec_player_pts :: "(player_row \<times> roster_row) list \<Rightarrow> rat" where
  "spec_player_pts roster = sum_list (map (\<lambda>(p, fr). fantasy_points p + manual_pts p) roster)"

definition spec_star_bonus :: "(player_row \<times> roster_row) list \<Rightarrow> rat" where
  "spec_star_bonus roster =
     sum_list (map (\<lambda>(p, fr). (1 / 2) * (fantasy_points p + manual_pts p))
                 (filter (\<lambda>(p, fr). fr_is_star fr \<noteq> 0) roster))"

definition follow_delta :: "match_result \<Rightarrow> rat" where
  "follow_delta r =
     (if mr_format r = ''bo3''
      then (if mr_result r = ''win'' then 100 else - 75)
      else (if mr_result r = ''win'' then 75 else - 50))"

definition spec_follow_pts :: "db \<Rightarrow> int \<Rightarrow> int \<Rightarrow> rat" where
  "spec_follow_pts d fantasy_team_id tid =
     (case followed_teams d fantasy_team_id of
        None \<Rightarrow> 0
      | Some followed \<Rightarrow> sum_list (map follow_delta (get_match_results d tid followed)))"

definition spec_adj_pts :: "db \<Rightarrow> int \<Rightarrow> rat" where
  "spec_adj_pts d fantasy_team_id =
     sum_list (map amount
       (filter (\<lambda>a. pa_fantasy_team_id a = fantasy_team_id) (point_adjustments d)))"

definition spec_total :: "db \<Rightarrow> league_row \<Rightarrow> string \<Rightarrow> fantasy_team \<Rightarrow> rat" where
  "spec_total d league phase t =
     py_round (spec_player_pts (get_roster d (ft_id t) phase)
               + spec_star_bonus (get_roster d (ft_id t) phase)
               + spec_follow_pts d (ft_id t) (l_tournament_id league)
               + spec_adj_pts d (ft_id t)) 2"

section \<open>The aggregate of one player in the specification's words\<close>




section \<open>Concrete inputs\<close>

text \<open>A stat row as the scraper reads it: KAST given as the fraction \<open>0.73\<close>.\<close>

definition cells_fraction :: parsed_cells where
  "cells_fraction =
     \<lparr>c_player_id = ''t1_9_tenz'', c_tournament_id = 1, c_match_id = ''m1'',
      c_ign = ''TenZ'', c_team_abbr = ''SEN'', c_rating = 12 / 10, c_acs = 250, c_kills = 20,
      c_deaths = 15, c_assists = 4, c_kast = KastText (73 / 100), c_adr = 160,
      c_first_kills = 3, c_first_deaths = 2, c_headshot_pct = 25\<rparr>"

text \<open>
  A small store: one tournament, one league of three teams capped at two players each,
  three leaderboard rows, team 1 holding players \<open>a\<close> (its star) and \<open>b\<close>, team 2 holding
  \<open>c\<close> and \<open>b\<close>, team 1 following \<open>SEN\<close> with one best-of-3 win and one best-of-1 loss,
  one adjustment, and three pending trades: \<open>a\<close> for \<open>c\<close>, \<open>a\<close> for a player \<open>z\<close> on no
  roster, and \<open>b\<close> for \<open>c\<close>, which would put \<open>b\<close> on team 2 twice.
\<close>

definition leaderboard_entry :: "string \<Rightarrow> rat \<Rightarrow> rat \<Rightarrow> player_row" where
  "leaderboard_entry pid pts manual =
     \<lparr>player_id = pid, tournament_id = 1, ign = pid, team = ''SEN'',
      role = Some ''flex'', kills = 10, deaths = 5, assists = 2, acs = 200, kast = 70, adr = 130,
      first_kills = 1, first_deaths = 1, rating = 1, headshot_pct = 20,
      rounds_played = 1, matches_played = 1, kd_ratio = 2, fk_fd_ratio = 1,
      base_points = pts, role_points = 0, fantasy_points = pts, manual_pts = manual\<rparr>"

definition roster_entry :: "nat \<Rightarrow> int \<Rightarrow> string \<Rightarrow> string \<Rightarrow> int \<Rightarrow> roster_row" where
  "roster_entry i t pid slot star =
     \<lparr>fr_id = i, fr_fantasy_team_id = t, fr_player_id = pid, fr_tournament_id = 1,
      fr_role_slot = slot, fr_is_star = star, fr_is_duplicate = 0, fr_phase = ''swiss''\<rparr>"

definition sample_league :: league_row where
  "sample_league = \<lparr>l_id = 1, l_tournament_id = 1, l_phase = ''swiss'', l_total_players = Some 2\<rparr>"

definition sample_db :: db where
  "sample_db =
     \<lparr>tournaments = [1],
      players = [(''a'', 1) \<mapsto> leaderboard_entry ''a'' 100 0,
                 (''b'', 1) \<mapsto> leaderboard_entry ''b'' 45 5,
                 (''c'', 1) \<mapsto> leaderboard_entry ''c'' 30 0],
      leagues = [sample_league],
      fantasy_teams = [\<lparr>ft_id = 1, ft_league_id = 1, team_name = ''T1''\<rparr>,
                       \<lparr>ft_id = 2, ft_league_id = 1, team_name = ''T2''\<rparr>,
                       \<lparr>ft_id = 3, ft_league_id = 1, team_name = ''T3''\<rparr>],
      fantasy_roster = [roster_entry 1 1 ''a'' ''duelist'' 1,
                        roster_entry 2 1 ''b'' ''flex'' 0,
                        roster_entry 3 2 ''c'' ''sentinel'' 0,
                        roster_entry 4 2 ''b'' ''flex'' 0],
      next_roster_id = 5,
      followed_teams = [1 \<mapsto> ''SEN''],
      match_results = [\<lparr>mr_tournament_id = 1, mr_team_name = ''SEN'', mr_result = ''win'',
                          mr_format = ''bo3''\<rparr>,
                       \<lparr>mr_tournament_id = 1, mr_team_name = ''SEN'', mr_result = ''loss'',
                          mr_format = ''bo1''\<rparr>],
      point_adjustments = [\<lparr>pa_fantasy_team_id = 1, amount = 5\<rparr>],
      trades = [\<lparr>tr_id = 1, tr_league_id = 1, from_team_id = 1, to_team_id = 2,
                  from_player_id = ''a'', to_player_id = ''c'', tr_tournament_id = 1,
                  tr_status = ''pending''\<rparr>,
                \<lparr>tr_id = 2, tr_league_id = 1, from_team_id = 1, to_team_id = 2,
                  from_player_id = ''a'', to_player_id = ''z'', tr_tournament_id = 1,
                  tr_status = ''pending''\<rparr>,
                \<lparr>tr_id = 3, tr_league_id = 1, from_team_id = 1, to_team_id = 2,
                  from_player_id = ''b'', to_player_id = ''c'', tr_tournament_id = 1,
                  tr_status = ''pending''\<rparr>],
      draft_sessions = [], next_draft_id = 1\<rparr>"

text \<open>The small store once a draft has been started in it and five picks were made.\<close>

definition draft_db :: db where
  "draft_db =
     sample_db\<lparr>draft_sessions :=
       [\<lparr>d_id = 1, d_league_id = 1, d_phase = ''swiss'', d_status = ''active'', current_pick = 6,
         total_picks = 6, snake_order = [1, 2, 3, 3, 2, 1]\<rparr>],
       next_draft_id := 2\<rparr>"

text \<open>
  Two complete match rows of one player with different ACS and KAST, the second one
  again as the scraper would flag it with KAST missing, and the row holding the sums of
  the two rows' stats.
\<close>

definition match_one :: match_row where
  "match_one =
     \<lparr>player_id = ''t1_9_tenz'', tournament_id = 1, ign = ''TenZ'', team = ''SEN'',
      role = Some ''flex'', kills = 20, deaths = 10, assists = 5, acs = 300, kast = 80,
      adr = 150, first_kills = 3, first_deaths = 2, rating = 12 / 10, headshot_pct = 25,
      match_id = ''m1'', stats_incomplete = 0, missing_fields = []\<rparr>"

definition match_two :: match_row where
  "match_two =
     \<lparr>player_id = ''t1_9_tenz'', tournament_id = 1, ign = ''TenZ'', team = ''SEN'',
      role = Some ''flex'', kills = 10, deaths = 15, assists = 3, acs = 150, kast = 60,
      adr = 100, first_kills = 1, first_deaths = 3, rating = 8 / 10, headshot_pct = 15,
      match_id = ''m2'', stats_incomplete = 0, missing_fields = []\<rparr>"


definition matches_summed :: match_row where
  "matches_summed =
     match_one\<lparr>kills := 30, deaths := 25, assists := 8, acs := 450, kast := 140, adr := 250,
                first_kills := 4, first_deaths := 5, rating := 2, headshot_pct := 40\<rparr>"

text \<open>What \<open>aggregate_player_stats\<close> returns for the two complete rows.\<close>

definition matches_aggregated :: aggregate_row where
  "matches_aggregated =
     \<lparr>player_id = ''t1_9_tenz'', tournament_id = 1, ign = ''TenZ'', team = ''SEN'',
      role = Some ''flex'', kills = 30, deaths = 25, assists = 8, acs = 225, kast = 70,
      adr = 125, first_kills = 4, first_deaths = 5, rating = 1, headshot_pct = 20,
      rounds_played = 2, matches_played = 2, kd_ratio = 6 / 5, fk_fd_ratio = 4 / 5,
      base_points = 82, role_points = 36309 / 1000, fantasy_points = 11831 / 100,
      has_incomplete_matches = False\<rparr>"

text \<open>
  Three stat rows whose totals fall on a decimal tie in exact arithmetic: a duelist row,
  a controller row and a row without a role, scored as flex.
\<close>

definition duelist_row :: stat_dict where
  "duelist_row =
     \<lparr>player_id = ''d'', tournament_id = 1, ign = ''D'', team = ''T'', role = Some ''duelist'',
      kills = 25, deaths = 26, assists = 3, acs = 2409 / 10, kast = 75, adr = 1367 / 10,
      first_kills = 1, first_deaths = 7, rating = 0, headshot_pct = 0\<rparr>"

definition controller_row :: stat_dict where
  "controller_row =
     \<lparr>player_id = ''c'', tournament_id = 1, ign = ''C'', team = ''T'', role = Some ''controller'',
      kills = 1, deaths = 20, assists = 0, acs = 198, kast = 75, adr = 176,
      first_kills = 7, first_deaths = 2, rating = 0, headshot_pct = 0\<rparr>"

definition flex_row :: stat_dict where
  "flex_row =
     \<lparr>player_id = ''f'', tournament_id = 1, ign = ''F'', team = ''T'', role = None,
      kills = 11, deaths = 5, assists = 14, acs = 150, kast = 70, adr = 207,
      first_kills = 9, first_deaths = 3, rating = 62 / 100, headshot_pct = 0\<rparr>"

section \<open>The snake order in the specification's words\<close>

text \<open>Forward, backward, forward, backward, ... over the teams, \<open>rounds\<close> times.\<close>

definition snake_of :: "'a list \<Rightarrow> nat \<Rightarrow> 'a list" where
  "snake_of team_ids rounds =
     concat (map (\<lambda>i. if even i then team_ids else rev team_ids) [0..<rounds])"

section \<open>The points engine computes the specified score and never raises\<close>

lemma duelist_eq: "duelist a fk fd = Inr (a / 10 + fk + (1 / 10) * fd)"
  by (simp add: duelist_def bind_err_def py_div_def)

lemma initiator_eq:
  "initiator a k kd =
     Inr (a + (a / (if k \<le> 0 then 1 / 1000 else k)) / (if kd \<le> 0 then 1 / 100 else kd))"
  by (simp add: initiator_def bind_err_def py_div_def Let_def not_less)

lemma controller_eq: "controller a k kd = Inr (a * (3 / 4) + (k / 10) * kd)"
  by (simp add: controller_def bind_err_def py_div_def)

lemma sentinel_eq: "sentinel a d = Inr (a / 10 + (d / 100) / (3 / 2))"
  by (simp add: sentinel_def bind_err_def py_div_def)

lemma deaths_floor_nonzero: "deaths_floor p \<noteq> 0"
  by (simp add: deaths_floor_def)

lemma py_round_zero: "py_round 0 n = 0"
  by (simp add: py_round_def round_half_even_def)

lemma calculate_player_points_eq:
  "calculate_player_points p role_arg = Inr (spec_score p (effective_role p role_arg))"
  unfolding calculate_player_points_def spec_score_def Let_def
    duelist_eq initiator_eq controller_eq sentinel_eq
  using deaths_floor_nonzero [of p]
  by (simp add: bind_err_def py_div_def spec_base_def spec_duelist_bonus_def
      spec_initiator_bonus_def spec_controller_bonus_def spec_sentinel_bonus_def
      kast_fraction_def kad_def deaths_floor_def Let_def not_less py_round_zero)

lemma effective_role_given: "effective_role p (Some (c # cs)) = c # cs"
  by (simp add: effective_role_def)

lemma effective_role_deaths:
  "effective_role (p\<lparr>deaths := n\<rparr>) role_arg = effective_role p role_arg"
  by (simp add: effective_role_def)

lemma deaths_floor_zero_one:
  "deaths_floor (p\<lparr>deaths := 0\<rparr>) = deaths_floor (p\<lparr>deaths := 1\<rparr>)"
  by (simp add: deaths_floor_def)

lemma kad_zero_one: "kad (p\<lparr>deaths := 0\<rparr>) = kad (p\<lparr>deaths := 1\<rparr>)"
  by (simp add: kad_def deaths_floor_zero_one)

lemma kast_fraction_deaths: "kast_fraction (p\<lparr>deaths := n\<rparr>) = kast_fraction p"
  by (simp add: kast_fraction_def)

lemma spec_score_zero_one:
  "spec_score (p\<lparr>deaths := 0\<rparr>) (effective_role (p\<lparr>deaths := 0\<rparr>) role_arg)
   = spec_score (p\<lparr>deaths := 1\<rparr>) (effective_role (p\<lparr>deaths := 1\<rparr>) role_arg)"
proof -
  have b: "spec_base (p\<lparr>deaths := 0\<rparr>) = spec_base (p\<lparr>deaths := 1\<rparr>)"
    by (simp add: spec_base_def deaths_floor_zero_one kast_fraction_deaths)
  have i: "spec_initiator_bonus (p\<lparr>deaths := 0\<rparr>) = spec_initiator_bonus (p\<lparr>deaths := 1\<rparr>)"
    by (simp add: spec_initiator_bonus_def kad_zero_one kast_fraction_deaths)
  have c: "spec_controller_bonus (p\<lparr>deaths := 0\<rparr>) = spec_controller_bonus (p\<lparr>deaths := 1\<rparr>)"
    by (simp add: spec_controller_bonus_def kad_zero_one)
  have d: "spec_duelist_bonus (p\<lparr>deaths := 0\<rparr>) = spec_duelist_bonus (p\<lparr>deaths := 1\<rparr>)"
    by (simp add: spec_duelist_bonus_def)
  have s: "spec_sentinel_bonus (p\<lparr>deaths := 0\<rparr>) = spec_sentinel_bonus (p\<lparr>deaths := 1\<rparr>)"
    by (simp add: spec_sentinel_bonus_def)
  show ?thesis
    unfolding spec_score_def b i c d s effective_role_deaths kast_fraction_deaths
    by (simp cong: if_cong)
qed

text \<open>
  In exact arithmetic the engine returns the triple of the specification, with the
  table's entry \<open>acs/10 + firstKills + 0.1*firstDeaths\<close> for duelist: the source's
  duelist expression and the table's entry denote the same rational.
\<close>

lemma calculate_player_points_exact:
  "calculate_player_points p role_arg = Inr (spec_score p (effective_role p role_arg))
   \<and> fst (spec_score p r) = py_round (spec_base p) 4
   \<and> effective_role p (Some (c # cs)) = c # cs"
  by (simp add: calculate_player_points_eq effective_role_given spec_score_def Let_def)

text \<open>
  C7. \<open>calculate_player_points\<close> returns a triple for every record and role: no division
  in it meets a zero denominator. A \<open>deaths\<close> of \<open>0\<close> scores as a \<open>deaths\<close> of \<open>1\<close>; the
  initiator bonus divides by \<open>0.001\<close> in place of a KAD that is not positive and by
  \<open>0.01\<close> in place of a KAST fraction that is not positive; the other three bonuses
  divide by constants.
\<close>

theorem calculate_player_points_never_raises:
  "(\<exists>b rb t. calculate_player_points p role_arg = Inr (b, rb, t))
   \<and> calculate_player_points (p\<lparr>deaths := 0\<rparr>) role_arg
       = calculate_player_points (p\<lparr>deaths := 1\<rparr>) role_arg
   \<and> initiator a ka_d kast_dec =
       Inr (a + (a / (if ka_d \<le> 0 then 1 / 1000 else ka_d))
                / (if kast_dec \<le> 0 then 1 / 100 else kast_dec))
   \<and> (\<exists>x. duelist acs_v fk fd = Inr x)
   \<and> (\<exists>x. controller a kast_v ka_d = Inr x)
   \<and> (\<exists>x. sentinel acs_v adr_v = Inr x)"
proof -
  obtain b rb t where "spec_score p (effective_role p role_arg) = (b, rb, t)"
    using prod_cases3 by blast
  then have "\<exists>b rb t. calculate_player_points p role_arg = Inr (b, rb, t)"
    by (simp add: calculate_player_points_eq)
  moreover have "calculate_player_points (p\<lparr>deaths := 0\<rparr>) role_arg
       = calculate_player_points (p\<lparr>deaths := 1\<rparr>) role_arg"
    by (simp add: calculate_player_points_eq spec_score_zero_one)
  ultimately show ?thesis
    by (simp add: initiator_eq duelist_eq controller_eq sentinel_eq)
qed

section \<open>The points engine on floats\<close>

lemma float_div_Inr: "b \<noteq> 0 \<Longrightarrow> float_div a b = Inr (py_float (a / b))"
  by (simp add: float_div_def)

lemma py_float_thousandth_pos: "py_float (1 / 1000) > 0" by code_simp
lemma py_float_hundredth_pos: "py_float (1 / 100) > 0" by code_simp
lemma py_float_three_halves: "py_float (3 / 2) = 3 / 2" by code_simp

lemma deaths_clamped_nonzero: "deaths_clamped p \<noteq> 0"
  by (simp add: deaths_clamped_def)

lemma bind_err_Inr: "bind_err (Inr x) f = f x"
  by (simp add: bind_err_def)

lemma duelist_float_eq:
  "duelist_float (py_float (acs p)) (stat_float (first_kills p)) (stat_float (first_deaths p))
     = Inr (duelist_bonus_float p)"
  by (simp add: duelist_float_def duelist_bonus_float_def float_div_Inr bind_err_Inr)

lemma initiator_float_eq:
  "initiator_float (stat_float (assists p)) (kad_float p) (kast_fraction_float p)
     = Inr (initiator_bonus_float p)"
proof -
  have a: "(if kad_float p > 0 then kad_float p else py_float (1 / 1000)) \<noteq> 0"
    using py_float_thousandth_pos by auto
  have b: "(if kast_fraction_float p > 0 then kast_fraction_float p else py_float (1 / 100)) \<noteq> 0"
    using py_float_hundredth_pos by auto
  show ?thesis
    unfolding initiator_float_def initiator_bonus_float_def Let_def
    by (simp only: float_div_Inr [OF a] float_div_Inr [OF b] bind_err_Inr)
qed

lemma controller_float_eq:
  "controller_float (stat_float (assists p)) (py_float (kast p)) (kad_float p)
     = Inr (controller_bonus_float p)"
  by (simp add: controller_float_def controller_bonus_float_def float_div_Inr bind_err_Inr)

lemma sentinel_float_eq:
  "sentinel_float (py_float (acs p)) (py_float (adr p)) = Inr (sentinel_bonus_float p)"
  by (simp add: sentinel_float_def sentinel_bonus_float_def float_div_Inr bind_err_Inr py_float_three_halves)

lemma kast_dec_eq:
  "(if py_float (kast p) > 0 then float_div (py_float (kast p)) 100 else Inr 0)
     = Inr (kast_fraction_float p)"
  by (simp add: kast_fraction_float_def float_div_Inr)

lemma ka_d_eq:
  "float_div (float_add (stat_float (kills p)) (stat_float (assists p)))
     (if stat_float (deaths p) = 0 then 1 else stat_float (deaths p)) = Inr (kad_float p)"
  using deaths_clamped_nonzero [of p]
  by (simp add: kad_float_def deaths_clamped_def float_div_Inr)

lemma calculate_player_points_float_eq:
  "calculate_player_points_float p role_arg =
     Inr (base_float p,
          float_round (role_bonus_float p (effective_role p role_arg)) 4,
          float_round (total_float p (effective_role p role_arg)) 2)"
  unfolding calculate_player_points_float_def Let_def stat_float_def [symmetric]
    kast_dec_eq ka_d_eq bind_err_Inr
  by (simp add: float_div_Inr bind_err_Inr duelist_float_eq initiator_float_eq
      controller_float_eq sentinel_float_eq base_float_def deaths_clamped_def
      role_bonus_float_def total_float_def flex_total_float_def)


text \<open>
  C1, as the code has it. For every stat record and role argument,
  \<open>calculate_player_points\<close> returns the triple of the specification computed on floats:
  the base is the sum \<open>kills*4 + deaths*(-6) + assists*1 + acs*(kastFraction/5) +
  first_kills*2 + first_deaths*(-4) + adr*0.2\<close> rounded to 4 places (\<open>kastFraction\<close> is \<open>0\<close>
  for \<open>kast \<le> 0\<close>, and a \<open>deaths\<close> of \<open>0\<close> counts as \<open>1\<close>), whatever the role; the bonus is
  the table's formula for initiator, controller and sentinel, and for duelist the
  expression \<open>acs/10 + (first_kills + first_deaths) - first_deaths*0.9\<close>; for flex the
  total is \<open>base + (sum of the four bonuses)/4 + rating*10*(kastFraction - 0.7)\<close> and the
  bonus \<open>total - base\<close>; for any other role the bonus is \<open>0\<close> and the total the base;
  the bonus is rounded to 4 places and the total to 2. The role in effect is the argument
  when one is given and not empty.
\<close>

theorem calculate_player_points_float_formula:
  "calculate_player_points_float p role_arg =
     Inr (base_float p,
          float_round (role_bonus_float p (effective_role p role_arg)) 4,
          float_round (total_float p (effective_role p role_arg)) 2)
   \<and> role_bonus_float p ''duelist'' = duelist_bonus_float p
   \<and> total_float p ''duelist'' = float_add (base_float p) (duelist_bonus_float p)
   \<and> total_float p ''flex'' = flex_total_float p
   \<and> role_bonus_float p ''flex'' = float_sub (flex_total_float p) (base_float p)
   \<and> effective_role p (Some (c # cs)) = c # cs"
  by (simp add: calculate_player_points_float_eq role_bonus_float_def total_float_def
      effective_role_def)

text \<open>
  The table's duelist entry \<open>acs/10 + firstKills + 0.1*firstDeaths\<close> is not what is
  returned: for 25 kills, 26 deaths, 3 assists, ACS 240.9, KAST 75, ADR 136.7, 1 first
  kill and 7 first deaths the base is \<open>-15.525\<close>, the source's duelist expression is
  \<open>25.790000000000003\<close> and the total \<open>10.27\<close>, while the table's entry is \<open>25.79\<close> and its
  total \<open>10.26\<close>.
\<close>

theorem duelist_table_counterexample:
  "calculate_player_points_float duelist_row (Some ''duelist'')
     = Inr (py_float (- 15525 / 1000), py_float (2579 / 100), py_float (1027 / 100))
   \<and> table_duelist_total_float duelist_row = py_float (1026 / 100)
   \<and> py_float (1027 / 100) \<noteq> py_float (1026 / 100)"
proof -
  have r: "effective_role duelist_row (Some ''duelist'') = ''duelist''"
    by (simp add: effective_role_def)
  have b: "base_float duelist_row = py_float (- 15525 / 1000)" by code_simp
  have rb: "float_round (role_bonus_float duelist_row ''duelist'') 4 = py_float (2579 / 100)"
    by code_simp
  have t: "float_round (total_float duelist_row ''duelist'') 2 = py_float (1027 / 100)"
    by code_simp
  have tt: "table_duelist_total_float duelist_row = py_float (1026 / 100)" by code_simp
  have ne: "py_float (1027 / 100) \<noteq> py_float (1026 / 100)" by code_simp
  show ?thesis
    unfolding calculate_player_points_float_eq r b rb t tt using ne by simp
qed

theorem calculate_player_points_float_witness:
  "calculate_player_points_float controller_row None
     = Inr (py_float (- 451 / 10), py_float (375 / 1000), py_float (- 4473 / 100))
   \<and> calculate_player_points_float flex_row None
     = Inr (py_float (964 / 10), py_float (26045 / 1000), py_float (12245 / 100))
   \<and> calculate_player_points_float flex_row (Some ''coach'')
     = Inr (py_float (964 / 10), 0, py_float (964 / 10))"
proof -
  have rc: "effective_role controller_row None = ''controller''"
    and rf: "effective_role flex_row None = ''flex''"
    and rx: "effective_role flex_row (Some ''coach'') = ''coach''"
    by (simp_all add: effective_role_def controller_row_def flex_row_def)
  have bc: "base_float controller_row = py_float (- 451 / 10)" by code_simp
  have cc: "float_round (role_bonus_float controller_row ''controller'') 4
              = py_float (375 / 1000)"
    by code_simp
  have tc: "float_round (total_float controller_row ''controller'') 2 = py_float (- 4473 / 100)"
    by code_simp
  have bf: "base_float flex_row = py_float (964 / 10)" by code_simp
  have ff: "float_round (role_bonus_float flex_row ''flex'') 4 = py_float (26045 / 1000)"
    by code_simp
  have tf: "float_round (total_float flex_row ''flex'') 2 = py_float (12245 / 100)"
    by code_simp
  have fx: "float_round (role_bonus_float flex_row ''coach'') 4 = 0" by code_simp
  have tx: "float_round (total_float flex_row ''coach'') 2 = py_float (964 / 10)" by code_simp
  have 1: "calculate_player_points_float controller_row None
     = Inr (py_float (- 451 / 10), py_float (375 / 1000), py_float (- 4473 / 100))"
    using calculate_player_points_float_formula [of controller_row None]
    unfolding rc bc cc tc by blast
  have 2: "calculate_player_points_float flex_row None
     = Inr (py_float (964 / 10), py_float (26045 / 1000), py_float (12245 / 100))"
    using calculate_player_points_float_formula [of flex_row None]
    unfolding rf bf ff tf by blast
  have 3: "calculate_player_points_float flex_row (Some ''coach'')
     = Inr (py_float (964 / 10), 0, py_float (964 / 10))"
    using calculate_player_points_float_formula [of flex_row "Some ''coach''"]
    unfolding rx bf fx tx by blast
  show ?thesis using 1 2 3 by blast
qed

section \<open>KAST normalisation\<close>

lemma parse_row_kast:
  "parse_row_by_class c = Some row \<Longrightarrow> kast row = normalise_kast (kast_raw_of (c_kast c))"
  by (auto simp: parse_row_by_class_def Let_def split: if_splits)

text \<open>
  C6. A raw KAST value strictly above \<open>0\<close> and at most \<open>1.5\<close> is stored multiplied by
  \<open>100\<close>; any other raw value is stored unchanged. Raw \<open>0.8\<close> becomes \<open>80\<close>, raw \<open>80\<close>
  stays \<open>80\<close>, raw \<open>1.4\<close> becomes \<open>140\<close>, raw \<open>1.5\<close> becomes \<open>150\<close>, and a raw value
  above \<open>1.5\<close> is kept. The KAST of every parsed row is the normalised raw value of its
  cell.
\<close>

theorem kast_normalisation:
  "(0 < v \<and> v \<le> 3 / 2 \<longrightarrow> normalise_kast v = v * 100)
   \<and> (\<not> (0 < v \<and> v \<le> 3 / 2) \<longrightarrow> normalise_kast v = v)
   \<and> normalise_kast (8 / 10) = 80
   \<and> normalise_kast 80 = 80
   \<and> normalise_kast (14 / 10) = 140
   \<and> normalise_kast (3 / 2) = 150
   \<and> (3 / 2 < v \<longrightarrow> normalise_kast v = v)
   \<and> (parse_row_by_class c = Some row \<longrightarrow> kast row = normalise_kast (kast_raw_of (c_kast c)))"
  using parse_row_kast [of c row] by (simp add: normalise_kast_def)

theorem kast_normalisation_witness:
  "0 < (73 / 100 :: rat) \<and> (73 / 100 :: rat) \<le> 3 / 2 \<and> normalise_kast (73 / 100) = 73
   \<and> \<not> (0 < (151 / 100 :: rat) \<and> (151 / 100 :: rat) \<le> 3 / 2) \<and> (3 / 2 :: rat) < 151 / 100
   \<and> normalise_kast (151 / 100) = 151 / 100
   \<and> (\<exists>row. parse_row_by_class cells_fraction = Some row \<and> kast row = 73)"
proof -
  obtain row where r: "parse_row_by_class cells_fraction = Some row"
    by (simp add: parse_row_by_class_def cells_fraction_def Let_def)
  have k: "kast_raw_of (c_kast cells_fraction) = 73 / 100"
    by (simp add: cells_fraction_def kast_raw_of_def)
  show ?thesis
    using kast_normalisation [of "73 / 100" cells_fraction row]
      kast_normalisation [of "151 / 100" cells_fraction row] r k
    by simp
qed

section \<open>Roster stubs leave existing leaderboard rows alone\<close>

lemma upsert_player_other:
  "k \<noteq> (player_id data, tournament_id data) \<Longrightarrow> players (upsert_player d data) k = players d k"
  by (simp add: upsert_player_def Let_def)

lemma register_stubs_frame:
  "list_all (\<lambda>stub. tournament_id stub = tid) stubs \<Longrightarrow> players d k = Some row
   \<Longrightarrow> players (fst (register_stubs d tid stubs n)) k = Some row"
proof (induction stubs arbitrary: d n)
  case Nil
  then show ?case by simp
next
  case (Cons stub stubs)
  show ?case
  proof (cases "players d (player_id stub, tid)")
    case None
    with Cons.prems have "k \<noteq> (player_id stub, tournament_id stub)" by auto
    then have "players (upsert_player d stub) k = Some row"
      using Cons.prems by (simp add: upsert_player_other)
    with Cons.IH [of "upsert_player d stub"] Cons.prems None show ?thesis by simp
  next
    case (Some existing)
    with Cons.IH [of d] Cons.prems show ?thesis by simp
  qed
qed

lemma stubs_of_links_tid: "list_all (\<lambda>stub. tournament_id stub = tid) (stubs_of_links links tid)"
  by (induction links) (auto simp: stubs_of_links_def make_player_stub_def)

lemma register_frame:
  "tournament_id stub = tid \<Longrightarrow> players (snd st) k = Some row
   \<Longrightarrow> players (snd (register tid st stub)) k = Some row"
proof (cases st)
  case (Pair seen_ids d)
  assume t: "tournament_id stub = tid" and p: "players (snd st) k = Some row"
  show ?thesis
  proof (cases "players d (player_id stub, tid)")
    case None
    with p Pair t have "k \<noteq> (player_id stub, tournament_id stub)" by auto
    then have "players (upsert_player d stub) k = Some row"
      using p Pair by (simp add: upsert_player_other)
    with Pair None p show ?thesis by (simp add: register_def Let_def)
  next
    case (Some existing)
    with Pair p show ?thesis by (simp add: register_def Let_def)
  qed
qed

lemma register_fold_frame:
  "list_all (\<lambda>stub. tournament_id stub = tid) stubs \<Longrightarrow> players (snd st) k = Some row
   \<Longrightarrow> players (snd (foldl (register tid) st stubs)) k = Some row"
  by (induction stubs arbitrary: st) (auto simp: register_frame)

text \<open>
  C10. Registering roster stubs never modifies an existing leaderboard row: in the stub
  loop of \<open>scrape_source\<close> and in \<open>_register\<close> of \<open>scrape_event_rosters\<close> a stub is
  upserted only when no row with its \<open>(player_id, tournament_id)\<close> exists, so every row of
  the table before the registration, whatever its points, is the same row after it.
\<close>

theorem stub_registration_keeps_rows:
  "players d k = Some row \<longrightarrow>
     players (fst (register_stubs d tid (stubs_of_links links tid) n)) k = Some row
     \<and> players (snd (foldl (register tid) (seen_ids, d) (stubs_of_links links tid))) k = Some row"
  using register_stubs_frame [OF stubs_of_links_tid, of d k row tid links n]
    register_fold_frame [OF stubs_of_links_tid, of "(seen_ids, d)" k row tid links]
  by simp

theorem stub_registration_keeps_rows_witness:
  "players sample_db (''a'', 1) = Some (leaderboard_entry ''a'' 100 0)
   \<and> fantasy_points (leaderboard_entry ''a'' 100 0) = 100
   \<and> players (fst (register_stubs sample_db 1
        (stubs_of_links [(''a'', ''A'', ''SEN''), (''n'', ''New'', ''SEN'')] 1) 0)) (''a'', 1)
       = Some (leaderboard_entry ''a'' 100 0)
   \<and> players (fst (register_stubs sample_db 1
        (stubs_of_links [(''a'', ''A'', ''SEN''), (''n'', ''New'', ''SEN'')] 1) 0)) (''n'', 1)
       = Some (make_player_stub ''n'' 1 ''New'' ''SEN'')"
proof -
  have p: "players sample_db (''a'', 1) = Some (leaderboard_entry ''a'' 100 0)"
    by (simp add: sample_db_def)
  have f: "fantasy_points (leaderboard_entry ''a'' 100 0) = 100"
    by (simp add: leaderboard_entry_def)
  have n: "players (fst (register_stubs sample_db 1
        (stubs_of_links [(''a'', ''A'', ''SEN''), (''n'', ''New'', ''SEN'')] 1) 0)) (''n'', 1)
       = Some (make_player_stub ''n'' 1 ''New'' ''SEN'')"
    by (simp add: sample_db_def stubs_of_links_def make_player_stub_def upsert_player_def)
  show ?thesis
    using stub_registration_keeps_rows [of sample_db "(''a'', 1)" "leaderboard_entry ''a'' 100 0" 1
        "[(''a'', ''A'', ''SEN''), (''n'', ''New'', ''SEN'')]" 0 "[]"] p f n
    by simp
qed

section \<open>The snake draft\<close>

lemma length_snake_of: "length (snake_of xs k) = k * length xs"
  by (induction k) (simp_all add: snake_of_def)

lemma snake_of_Suc:
  "snake_of xs (Suc k) = snake_of xs k @ (if even k then xs else rev xs)"
  by (simp add: snake_of_def)

lemma map_snake_of: "map f (snake_of xs k) = snake_of (map f xs) k"
proof (induction k)
  case 0
  show ?case by (simp add: snake_of_def)
next
  case (Suc k)
  then show ?case by (simp add: snake_of_Suc rev_map)
qed

lemma snake_loop_runs:
  assumes n: "forward \<noteq> []"
  shows "k \<le> m \<Longrightarrow> snake_loop forward (rev forward) (int m * int (length forward)) (snake_of forward k) k
         = Some (snake_of forward m)"
proof (induction "m - k" arbitrary: k)
  case 0
  then have "k = m" by simp
  then show ?case
    by (subst snake_loop.simps) (simp add: length_snake_of)
next
  case (Suc d)
  then have lt: "k < m" and d: "d = m - Suc k" by auto
  from n have "0 < length forward" by simp
  with lt have "k * length forward < m * length forward" by simp
  then have c: "int (length (snake_of forward k)) < int m * int (length forward)"
    by (simp add: length_snake_of flip: of_nat_mult)
  have "snake_loop forward (rev forward) (int m * int (length forward)) (snake_of forward k) k
        = snake_loop forward (rev forward) (int m * int (length forward))
            (snake_of forward (Suc k)) (Suc k)"
    by (subst snake_loop.simps) (simp add: c snake_of_Suc even_iff_mod_2_eq_zero)
  also have "\<dots> = Some (snake_of forward m)"
    using Suc.hyps(1) [OF d] lt by simp
  finally show ?case .
qed

lemma snake_loop_from_empty:
  assumes "forward \<noteq> []"
  shows "snake_loop forward (rev forward) (tp * int (length forward)) [] 0
         = Some (snake_of forward (nat tp))"
proof (cases "0 \<le> tp")
  case True
  then obtain m where m: "tp = int m" using nonneg_int_cases by blast
  show ?thesis
    using snake_loop_runs [OF assms, of 0 m] by (simp add: m snake_of_def)
next
  case False
  then have "tp * int (length forward) \<le> 0"
    by (simp add: mult_le_0_iff)
  with False show ?thesis
    by (subst snake_loop.simps) (simp add: snake_of_def)
qed

lemma py_slice_to_snake:
  "py_slice_to (snake_of xs (nat tp)) (tp * int (length xs)) = snake_of xs (nat tp)"
proof (cases "0 \<le> tp")
  case True
  then have "nat (tp * int (length xs)) = nat tp * length xs"
    by (simp add: nat_mult_distrib)
  with True show ?thesis by (simp add: py_slice_to_def length_snake_of)
next
  case False
  then show ?thesis by (simp add: py_slice_to_def snake_of_def)
qed

lemma map_nth_upt: "map (\<lambda>i. xs ! i) [0..<length xs] = xs"
  by (simp add: map_nth)

lemma create_draft_session_eq:
  assumes t: "get_teams_in_league d league_id \<noteq> []"
    and l: "get_league d league_id \<noteq> None"
  shows "create_draft_session d league_id phase =
     Some (Some (next_draft_id d),
           d\<lparr>draft_sessions := draft_sessions d @
               [\<lparr>d_id = next_draft_id d, d_league_id = league_id,
                 d_phase = phase, d_status = ''active'', current_pick = 1,
                 total_picks = get_ruleset_total_players d league_id
                               * int (length (get_teams_in_league d league_id)),
                 snake_order = snake_of (map ft_id (get_teams_in_league d league_id))
                                 (nat (get_ruleset_total_players d league_id))\<rparr>],
             next_draft_id := Suc (next_draft_id d)\<rparr>)"
proof -
  let ?teams = "get_teams_in_league d league_id"
  let ?n = "length ?teams"
  let ?tp = "get_ruleset_total_players d league_id"
  have ne: "[0..<?n] \<noteq> []" using t by simp
  have loop: "snake_loop [0..<?n] (rev [0..<?n]) (?tp * int ?n) [] 0
              = Some (snake_of [0..<?n] (nat ?tp))"
    using snake_loop_from_empty [OF ne, of ?tp] by simp
  have slice: "py_slice_to (snake_of [0..<?n] (nat ?tp)) (?tp * int ?n) = snake_of [0..<?n] (nat ?tp)"
    using py_slice_to_snake [of "[0..<?n]" ?tp] by simp
  have ids: "map (\<lambda>i. map ft_id ?teams ! i) (snake_of [0..<?n] (nat ?tp))
             = snake_of (map ft_id ?teams) (nat ?tp)"
    using map_nth_upt [of "map ft_id ?teams"] by (simp add: map_snake_of)
  show ?thesis
    using t l by (simp add: create_draft_session_def Let_def loop slice ids)
qed

lemma find_map_update:
  "(\<And>x. key (f x) = key x) \<Longrightarrow> find (\<lambda>x. key x = i) xs = Some s
   \<Longrightarrow> find (\<lambda>x. key x = i) (map (\<lambda>x. if key x = i then f x else x) xs) = Some (f s)"
  by (induction xs) (auto split: if_splits)

lemma advance_draft_session:
  assumes "find (\<lambda>s. d_id s = i) (draft_sessions d) = Some s"
  shows "find (\<lambda>s. d_id s = i) (draft_sessions (advance_draft d i))
         = Some (s\<lparr>current_pick := current_pick s + 1,
                   d_status := (if current_pick s + 1 > total_picks s then ''complete''
                                else d_status s)\<rparr>)"
proof (cases "current_pick s + 1 > total_picks s")
  case True
  have "find (\<lambda>s. d_id s = i)
          (map (\<lambda>x. if d_id x = i then x\<lparr>d_status := ''complete'', current_pick := current_pick s + 1\<rparr> else x)
             (draft_sessions d))
        = Some (s\<lparr>d_status := ''complete'', current_pick := current_pick s + 1\<rparr>)"
    using find_map_update [of d_id "\<lambda>x. x\<lparr>d_status := ''complete'', current_pick := current_pick s + 1\<rparr>", OF _ assms]
    by simp
  with True assms show ?thesis by (simp add: advance_draft_def Let_def)
next
  case False
  have "find (\<lambda>s. d_id s = i)
          (map (\<lambda>x. if d_id x = i then x\<lparr>current_pick := current_pick s + 1\<rparr> else x)
             (draft_sessions d))
        = Some (s\<lparr>current_pick := current_pick s + 1\<rparr>)"
    using find_map_update [of d_id "\<lambda>x. x\<lparr>current_pick := current_pick s + 1\<rparr>", OF _ assms]
    by simp
  with False assms show ?thesis by (simp add: advance_draft_def Let_def)
qed

lemma get_current_drafter_in_range:
  assumes "find (\<lambda>s. d_id s = i) (draft_sessions d) = Some s"
    and "1 \<le> current_pick s" and "current_pick s \<le> int (length (snake_order s))"
  shows "get_current_drafter d i = Inr (Some (snake_order s ! nat (current_pick s - 1)))"
  using assms by (simp add: get_current_drafter_def Let_def)

text \<open>
  C9. For a league that exists and has \<open>n \<ge> 1\<close> teams, \<open>create_draft_session\<close> returns
  and stores an active session whose snake order is the team ids forward, backward,
  forward, ... \<open>total_players\<close> times: exactly \<open>total_players * n\<close> picks (none when
  \<open>total_players\<close> is not positive), with \<open>total_picks = total_players * n\<close> and the
  cursor at \<open>1\<close>. For three teams and two rounds the order is
  \<open>[T1, T2, T3, T3, T2, T1]\<close>. While the cursor is inside the order, the current picker is
  \<open>snake_order[current_pick - 1]\<close>. \<open>advance_draft\<close> adds one to the cursor and sets the
  status to \<open>complete\<close> when the new cursor exceeds \<open>total_picks\<close>, leaving the status as
  it was otherwise.
\<close>

theorem snake_draft:
  "(get_teams_in_league d league_id \<noteq> [] \<and> get_league d league_id \<noteq> None \<longrightarrow>
      (\<exists>did s. create_draft_session d league_id phase
                 = Some (Some did, d\<lparr>draft_sessions := draft_sessions d @ [s],
                                     next_draft_id := Suc did\<rparr>)
         \<and> did = next_draft_id d \<and> d_id s = did \<and> d_league_id s = league_id \<and> d_phase s = phase
         \<and> snake_order s = snake_of (map ft_id (get_teams_in_league d league_id))
                               (nat (get_ruleset_total_players d league_id))
         \<and> length (snake_order s)
             = nat (get_ruleset_total_players d league_id
                    * int (length (get_teams_in_league d league_id)))
         \<and> total_picks s = get_ruleset_total_players d league_id
                              * int (length (get_teams_in_league d league_id))
         \<and> current_pick s = 1 \<and> d_status s = ''active''))
   \<and> snake_of [t1, t2, t3] 2 = [t1, t2, t3, t3, t2, t1]
   \<and> (find (\<lambda>s. d_id s = i) (draft_sessions d) = Some s
        \<and> 1 \<le> current_pick s \<and> current_pick s \<le> int (length (snake_order s)) \<longrightarrow>
        get_current_drafter d i = Inr (Some (snake_order s ! nat (current_pick s - 1))))
   \<and> (find (\<lambda>s. d_id s = i) (draft_sessions d) = Some s \<longrightarrow>
        find (\<lambda>s. d_id s = i) (draft_sessions (advance_draft d i))
        = Some (s\<lparr>current_pick := current_pick s + 1,
                  d_status := (if current_pick s + 1 > total_picks s then ''complete''
                               else d_status s)\<rparr>))"
proof -
  have len: "length (snake_of (map ft_id (get_teams_in_league d league_id))
                       (nat (get_ruleset_total_players d league_id)))
             = nat (get_ruleset_total_players d league_id
                    * int (length (get_teams_in_league d league_id)))"
    by (cases "0 \<le> get_ruleset_total_players d league_id")
       (simp_all add: length_snake_of nat_mult_distrib mult_le_0_iff)
  have ex: "snake_of [t1, t2, t3] 2 = [t1, t2, t3, t3, t2, t1]"
    by (simp add: snake_of_def upt_rec)
  show ?thesis
    using create_draft_session_eq [of d league_id phase] len ex
      get_current_drafter_in_range [of i d s] advance_draft_session [of i d s]
    by auto
qed

theorem snake_draft_witness:
  "get_teams_in_league sample_db 1 \<noteq> [] \<and> get_league sample_db 1 \<noteq> None
   \<and> (\<exists>did s. create_draft_session sample_db 1 ''swiss''
                 = Some (Some did, sample_db\<lparr>draft_sessions := draft_sessions sample_db @ [s],
                                             next_draft_id := Suc did\<rparr>)
          \<and> snake_order s = [1, 2, 3, 3, 2, 1] \<and> total_picks s = 6)
   \<and> find (\<lambda>s. d_id s = 1) (draft_sessions draft_db) \<noteq> None
   \<and> get_current_drafter draft_db 1 = Inr (Some 1)
   \<and> map current_pick (draft_sessions (advance_draft draft_db 1)) = [7]
   \<and> map d_status (draft_sessions (advance_draft draft_db 1)) = [''complete'']"
proof -
  have t: "get_teams_in_league sample_db 1
           = [\<lparr>ft_id = 1, ft_league_id = 1, team_name = ''T1''\<rparr>,
              \<lparr>ft_id = 2, ft_league_id = 1, team_name = ''T2''\<rparr>,
              \<lparr>ft_id = 3, ft_league_id = 1, team_name = ''T3''\<rparr>]"
    by (simp add: get_teams_in_league_def sample_db_def)
  have l: "get_league sample_db 1 \<noteq> None"
    by (simp add: get_league_def sample_db_def sample_league_def)
  have r: "get_ruleset_total_players sample_db 1 = 2"
    by (simp add: get_ruleset_total_players_def sample_db_def sample_league_def)
  have s: "snake_of [1, 2, 3 :: int] 2 = [1, 2, 3, 3, 2, 1]"
    by (simp add: snake_of_def upt_rec)
  have f: "find (\<lambda>s. d_id s = 1) (draft_sessions draft_db)
           = Some \<lparr>d_id = 1, d_league_id = 1, d_phase = ''swiss'', d_status = ''active'',
                   current_pick = 6, total_picks = 6, snake_order = [1, 2, 3, 3, 2, 1]\<rparr>"
    by (simp add: draft_db_def)
  have a: "map current_pick (draft_sessions (advance_draft draft_db 1)) = [7]
           \<and> map d_status (draft_sessions (advance_draft draft_db 1)) = [''complete'']"
    by (simp add: advance_draft_def draft_db_def Let_def)
  have c: "\<exists>did s. create_draft_session sample_db 1 ''swiss''
                 = Some (Some did, sample_db\<lparr>draft_sessions := draft_sessions sample_db @ [s],
                                             next_draft_id := Suc did\<rparr>)
          \<and> snake_order s = [1, 2, 3, 3, 2, 1] \<and> total_picks s = 6"
    using snake_draft [where d = sample_db and league_id = 1 and phase = "''swiss''"
        and ?t1.0 = "1 :: int" and ?t2.0 = 2 and ?t3.0 = 3 and i = 1
        and s = "\<lparr>d_id = 1, d_league_id = 1, d_phase = ''swiss'', d_status = ''active'',
          current_pick = 6, total_picks = 6, snake_order = [1, 2, 3, 3, 2, 1]\<rparr>"]
      l
    by (auto simp add: t r s)
  have g: "get_current_drafter draft_db 1 = Inr (Some 1)"
    using snake_draft [where d = draft_db and league_id = 1 and phase = "''swiss''"
        and ?t1.0 = "1 :: int" and ?t2.0 = 2 and ?t3.0 = 3 and i = 1
        and s = "\<lparr>d_id = 1, d_league_id = 1, d_phase = ''swiss'', d_status = ''active'',
          current_pick = 6, total_picks = 6, snake_order = [1, 2, 3, 3, 2, 1]\<rparr>"]
      f
    by (simp add: nth_Cons')
  show ?thesis
    using c g a f l by (simp add: t)
qed

section \<open>Accepting a trade\<close>

lemma roster_set_trade_status: "fantasy_roster (set_trade_status d i a) = fantasy_roster d"
  by (simp add: set_trade_status_def)

lemma trades_set_trade_status:
  "trades (set_trade_status (d\<lparr>fantasy_roster := r, next_roster_id := n\<rparr>) i a)
     = trades (set_trade_status d i a)"
  by (simp add: set_trade_status_def)

lemma sort_key_eq_Nil: "sort_key f xs = [] \<longleftrightarrow> xs = []"
  using length_sort [of f xs] by (cases xs) auto

lemma fetch_slot_None:
  "fetch_slot d tm p = None \<longleftrightarrow>
     filter (\<lambda>fr. fr_fantasy_team_id fr = tm \<and> fr_player_id fr = p) (fantasy_roster d) = []"
proof -
  let ?m = "filter (\<lambda>fr. fr_fantasy_team_id fr = tm \<and> fr_player_id fr = p) (fantasy_roster d)"
  have "fetch_slot d tm p = None \<longleftrightarrow> sort_key fr_phase ?m = []"
    by (cases "sort_key fr_phase ?m") (simp_all add: fetch_slot_def)
  then show ?thesis by (simp only: sort_key_eq_Nil)
qed

lemma fetch_slot_single:
  "filter (\<lambda>fr. fr_fantasy_team_id fr = tm \<and> fr_player_id fr = p) (fantasy_roster d) = [fr]
     \<Longrightarrow> fetch_slot d tm p = Some fr"
  by (simp add: fetch_slot_def)

lemma fetch_slot_Some:
  "fetch_slot d tm p = Some fr \<Longrightarrow>
     fr_fantasy_team_id fr = tm \<and> fr_player_id fr = p \<and> fr \<in> set (fantasy_roster d)"
proof -
  let ?m = "filter (\<lambda>fr. fr_fantasy_team_id fr = tm \<and> fr_player_id fr = p) (fantasy_roster d)"
  assume "fetch_slot d tm p = Some fr"
  then obtain rest where "sort_key fr_phase ?m = fr # rest"
    by (auto simp: fetch_slot_def split: list.splits)
  then have "fr \<in> set (sort_key fr_phase ?m)" by simp
  then have "fr \<in> set ?m" by simp
  then show ?thesis by simp
qed

lemma resolve_trade_missing:
  assumes "find (\<lambda>t. tr_id t = i) (trades d) = Some t" and "tr_status t = ''pending''"
    and "fetch_slot d (from_team_id t) (from_player_id t) = None
         \<or> fetch_slot d (to_team_id t) (to_player_id t) = None"
  shows "resolve_trade d i ''accepted'' = (Inr True, set_trade_status d i ''accepted'')"
  using assms by (auto simp: resolve_trade_def split: option.splits)

lemma resolve_trade_both:
  assumes "find (\<lambda>t. tr_id t = i) (trades d) = Some t" and "tr_status t = ''pending''"
    and "fetch_slot d (from_team_id t) (from_player_id t) = Some fs"
    and "fetch_slot d (to_team_id t) (to_player_id t) = Some ts"
  shows "resolve_trade d i ''accepted'' =
           (case swap_players d t fs ts of
              Inl e \<Rightarrow> (Inl e, d)
            | Inr d' \<Rightarrow> (Inr True, set_trade_status d' i ''accepted''))"
  using assms by (simp add: resolve_trade_def)

lemma delete_both_single:
  assumes f: "filter (\<lambda>fr. fr_fantasy_team_id fr = ft \<and> fr_player_id fr = fp) rows = [fs]"
    and t: "filter (\<lambda>fr. fr_fantasy_team_id fr = tt \<and> fr_player_id fr = tp) rows = [ts]"
  shows "delete_roster (delete_roster rows ft fp None) tt tp None
           = filter (\<lambda>fr. fr \<noteq> fs \<and> fr \<noteq> ts) rows"
proof -
  have m: "\<And>fr. fr \<in> set rows \<Longrightarrow>
             (fr_fantasy_team_id fr = ft \<and> fr_player_id fr = fp) = (fr = fs)"
  proof -
    fix fr assume "fr \<in> set rows"
    then have "(fr_fantasy_team_id fr = ft \<and> fr_player_id fr = fp)
                 = (fr \<in> set (filter (\<lambda>fr. fr_fantasy_team_id fr = ft \<and> fr_player_id fr = fp) rows))"
      by simp
    then show "(fr_fantasy_team_id fr = ft \<and> fr_player_id fr = fp) = (fr = fs)"
      by (simp only: f) simp
  qed
  have n: "\<And>fr. fr \<in> set rows \<Longrightarrow>
             (fr_fantasy_team_id fr = tt \<and> fr_player_id fr = tp) = (fr = ts)"
  proof -
    fix fr assume "fr \<in> set rows"
    then have "(fr_fantasy_team_id fr = tt \<and> fr_player_id fr = tp)
                 = (fr \<in> set (filter (\<lambda>fr. fr_fantasy_team_id fr = tt \<and> fr_player_id fr = tp) rows))"
      by simp
    then show "(fr_fantasy_team_id fr = tt \<and> fr_player_id fr = tp) = (fr = ts)"
      by (simp only: t) simp
  qed
  have "delete_roster (delete_roster rows ft fp None) tt tp None
          = filter (\<lambda>fr. \<not> (fr_fantasy_team_id fr = ft \<and> fr_player_id fr = fp)
                          \<and> \<not> (fr_fantasy_team_id fr = tt \<and> fr_player_id fr = tp)) rows"
    by (simp add: delete_roster_def conj_commute)
  also have "\<dots> = filter (\<lambda>fr. fr \<noteq> fs \<and> fr \<noteq> ts) rows"
    by (rule filter_cong) (simp_all add: m n)
  finally show ?thesis .
qed

lemma swap_players_single:
  assumes f: "filter (\<lambda>fr. fr_fantasy_team_id fr = from_team_id t
                            \<and> fr_player_id fr = from_player_id t) (fantasy_roster d) = [fs]"
    and s: "filter (\<lambda>fr. fr_fantasy_team_id fr = to_team_id t
                            \<and> fr_player_id fr = to_player_id t) (fantasy_roster d) = [ts]"
    and tf: "list_ex (\<lambda>x. ft_id x = from_team_id t) (fantasy_teams d)"
    and tt: "list_ex (\<lambda>x. ft_id x = to_team_id t) (fantasy_teams d)"
    and n1: "\<not> list_ex (\<lambda>fr. fr_fantasy_team_id fr = from_team_id t
                              \<and> fr_player_id fr = to_player_id t
                              \<and> fr_phase fr = fr_phase fs) (fantasy_roster d)"
    and n2: "\<not> list_ex (\<lambda>fr. fr_fantasy_team_id fr = to_team_id t
                              \<and> fr_player_id fr = from_player_id t
                              \<and> fr_phase fr = fr_phase ts) (fantasy_roster d)"
  shows "swap_players d t fs ts =
           Inr (d\<lparr>fantasy_roster :=
                    filter (\<lambda>fr. fr \<noteq> fs \<and> fr \<noteq> ts) (fantasy_roster d)
                    @ [\<lparr>fr_id = next_roster_id d, fr_fantasy_team_id = from_team_id t,
                         fr_player_id = to_player_id t, fr_tournament_id = tr_tournament_id t,
                         fr_role_slot = fr_role_slot fs, fr_is_star = 0, fr_is_duplicate = 0,
                         fr_phase = fr_phase fs\<rparr>,
                        \<lparr>fr_id = Suc (next_roster_id d), fr_fantasy_team_id = to_team_id t,
                         fr_player_id = from_player_id t, fr_tournament_id = tr_tournament_id t,
                         fr_role_slot = fr_role_slot ts, fr_is_star = 0, fr_is_duplicate = 0,
                         fr_phase = fr_phase ts\<rparr>],
                  next_roster_id := Suc (Suc (next_roster_id d))\<rparr>)"
proof -
  have "fs \<in> set (filter (\<lambda>fr. fr_fantasy_team_id fr = from_team_id t
                            \<and> fr_player_id fr = from_player_id t) (fantasy_roster d))"
    by (simp only: f) simp
  then have fsin: "fs \<in> set (fantasy_roster d)" "fr_fantasy_team_id fs = from_team_id t"
    "fr_player_id fs = from_player_id t" by simp_all
  with n1 have ne: "\<not> (from_team_id t = to_team_id t \<and> to_player_id t = from_player_id t)"
    by (auto simp: list_ex_iff)
  note del = delete_both_single [OF f s]
  show ?thesis
    using tf tt n1 n2 ne
    by (auto simp: swap_players_def insert_roster_def bind_err_def Let_def del list_ex_iff)
qed

lemma fetch_slot_index_order:
  "fetch_slot \<lparr>tournaments = [], players = Map.empty, leagues = [], fantasy_teams = [],
               fantasy_roster =
                 [(roster_entry 1 1 ''a'' ''duelist'' 0),
                  (roster_entry 2 1 ''a'' ''flex'' 0)\<lparr>fr_phase := ''playoffs''\<rparr>],
               next_roster_id = 3, followed_teams = Map.empty, match_results = [],
               point_adjustments = [], trades = [], draft_sessions = [], next_draft_id = 1\<rparr>
     1 ''a''
   = Some ((roster_entry 2 1 ''a'' ''flex'' 0)\<lparr>fr_phase := ''playoffs''\<rparr>)"
  by code_simp

text \<open>
  C5, as the code has it. Accepting a pending trade when either traded player has no
  roster entry on their side leaves the roster table unchanged, yet the call is not
  reported as failed: the trade is marked accepted and the call returns \<open>True\<close>. When each
  traded player has one roster entry on their side and neither team already holds the
  incoming player in the phase of the cell that is vacated for them, the call returns
  \<open>True\<close>, the trade is marked accepted, every other roster row stays, and each player
  sits in the other's former (team, role slot, phase) cell.
\<close>

theorem resolve_trade_accept:
  "find (\<lambda>t. tr_id t = i) (trades d) = Some t \<and> tr_status t = ''pending'' \<longrightarrow>
     ((fetch_slot d (from_team_id t) (from_player_id t) = None
       \<or> fetch_slot d (to_team_id t) (to_player_id t) = None) \<longrightarrow>
        resolve_trade d i ''accepted'' = (Inr True, set_trade_status d i ''accepted'')
        \<and> fantasy_roster (snd (resolve_trade d i ''accepted'')) = fantasy_roster d)
     \<and> (filter (\<lambda>fr. fr_fantasy_team_id fr = from_team_id t
                       \<and> fr_player_id fr = from_player_id t) (fantasy_roster d) = [fs]
          \<and> filter (\<lambda>fr. fr_fantasy_team_id fr = to_team_id t
                       \<and> fr_player_id fr = to_player_id t) (fantasy_roster d) = [ts]
          \<and> list_ex (\<lambda>x. ft_id x = from_team_id t) (fantasy_teams d)
          \<and> list_ex (\<lambda>x. ft_id x = to_team_id t) (fantasy_teams d)
          \<and> \<not> list_ex (\<lambda>fr. fr_fantasy_team_id fr = from_team_id t
                                \<and> fr_player_id fr = to_player_id t
                                \<and> fr_phase fr = fr_phase fs) (fantasy_roster d)
          \<and> \<not> list_ex (\<lambda>fr. fr_fantasy_team_id fr = to_team_id t
                                \<and> fr_player_id fr = from_player_id t
                                \<and> fr_phase fr = fr_phase ts) (fantasy_roster d) \<longrightarrow>
          fst (resolve_trade d i ''accepted'') = Inr True
          \<and> trades (snd (resolve_trade d i ''accepted''))
              = trades (set_trade_status d i ''accepted'')
          \<and> fantasy_roster (snd (resolve_trade d i ''accepted'')) =
               filter (\<lambda>fr. fr \<noteq> fs \<and> fr \<noteq> ts) (fantasy_roster d)
               @ [\<lparr>fr_id = next_roster_id d, fr_fantasy_team_id = from_team_id t,
                    fr_player_id = to_player_id t, fr_tournament_id = tr_tournament_id t,
                    fr_role_slot = fr_role_slot fs, fr_is_star = 0, fr_is_duplicate = 0,
                    fr_phase = fr_phase fs\<rparr>,
                   \<lparr>fr_id = Suc (next_roster_id d), fr_fantasy_team_id = to_team_id t,
                    fr_player_id = from_player_id t, fr_tournament_id = tr_tournament_id t,
                    fr_role_slot = fr_role_slot ts, fr_is_star = 0, fr_is_duplicate = 0,
                    fr_phase = fr_phase ts\<rparr>])"
proof (intro impI conjI; (elim conjE)?)
  assume a: "find (\<lambda>t. tr_id t = i) (trades d) = Some t" "tr_status t = ''pending''"
    and m: "fetch_slot d (from_team_id t) (from_player_id t) = None
            \<or> fetch_slot d (to_team_id t) (to_player_id t) = None"
  show "resolve_trade d i ''accepted'' = (Inr True, set_trade_status d i ''accepted'')"
    using resolve_trade_missing [OF a m] .
  then show "fantasy_roster (snd (resolve_trade d i ''accepted'')) = fantasy_roster d"
    by (simp add: roster_set_trade_status)
next
  assume a: "find (\<lambda>t. tr_id t = i) (trades d) = Some t" "tr_status t = ''pending''"
    and f: "filter (\<lambda>fr. fr_fantasy_team_id fr = from_team_id t
                       \<and> fr_player_id fr = from_player_id t) (fantasy_roster d) = [fs]"
    and s: "filter (\<lambda>fr. fr_fantasy_team_id fr = to_team_id t
                       \<and> fr_player_id fr = to_player_id t) (fantasy_roster d) = [ts]"
    and c: "list_ex (\<lambda>x. ft_id x = from_team_id t) (fantasy_teams d)"
      "list_ex (\<lambda>x. ft_id x = to_team_id t) (fantasy_teams d)"
      "\<not> list_ex (\<lambda>fr. fr_fantasy_team_id fr = from_team_id t
                                \<and> fr_player_id fr = to_player_id t
                                \<and> fr_phase fr = fr_phase fs) (fantasy_roster d)"
      "\<not> list_ex (\<lambda>fr. fr_fantasy_team_id fr = to_team_id t
                                \<and> fr_player_id fr = from_player_id t
                                \<and> fr_phase fr = fr_phase ts) (fantasy_roster d)"
  note r = resolve_trade_both [OF a fetch_slot_single [OF f] fetch_slot_single [OF s]]
  note sw = swap_players_single [OF f s c]
  show "fst (resolve_trade d i ''accepted'') = Inr True"
    by (simp add: r sw)
  show "trades (snd (resolve_trade d i ''accepted'')) = trades (set_trade_status d i ''accepted'')"
    by (simp add: r sw trades_set_trade_status)
  show "fantasy_roster (snd (resolve_trade d i ''accepted'')) =
               filter (\<lambda>fr. fr \<noteq> fs \<and> fr \<noteq> ts) (fantasy_roster d)
               @ [\<lparr>fr_id = next_roster_id d, fr_fantasy_team_id = from_team_id t,
                    fr_player_id = to_player_id t, fr_tournament_id = tr_tournament_id t,
                    fr_role_slot = fr_role_slot fs, fr_is_star = 0, fr_is_duplicate = 0,
                    fr_phase = fr_phase fs\<rparr>,
                   \<lparr>fr_id = Suc (next_roster_id d), fr_fantasy_team_id = to_team_id t,
                    fr_player_id = from_player_id t, fr_tournament_id = tr_tournament_id t,
                    fr_role_slot = fr_role_slot ts, fr_is_star = 0, fr_is_duplicate = 0,
                    fr_phase = fr_phase ts\<rparr>]"
    by (simp add: r sw roster_set_trade_status)
qed

theorem resolve_trade_missing_entry_counterexample:
  "fetch_slot sample_db 2 ''z'' = None
   \<and> fst (resolve_trade sample_db 2 ''accepted'') = Inr True
   \<and> map tr_status (trades (snd (resolve_trade sample_db 2 ''accepted'')))
       = [''pending'', ''accepted'', ''pending'']"
  by (simp add: resolve_trade_def fetch_slot_def sample_db_def roster_entry_def
      set_trade_status_def)

theorem resolve_trade_accept_witness:
  "fetch_slot sample_db 2 ''z'' = None
   \<and> resolve_trade sample_db 2 ''accepted'' = (Inr True, set_trade_status sample_db 2 ''accepted'')
   \<and> fantasy_roster (snd (resolve_trade sample_db 2 ''accepted'')) = fantasy_roster sample_db
   \<and> fst (resolve_trade sample_db 1 ''accepted'') = Inr True
   \<and> map tr_status (trades (snd (resolve_trade sample_db 1 ''accepted'')))
       = [''accepted'', ''pending'', ''pending'']
   \<and> fantasy_roster (snd (resolve_trade sample_db 1 ''accepted''))
       = [roster_entry 2 1 ''b'' ''flex'' 0, roster_entry 4 2 ''b'' ''flex'' 0,
          roster_entry 5 1 ''c'' ''duelist'' 0, roster_entry 6 2 ''a'' ''sentinel'' 0]"
proof -
  let ?t1 = "\<lparr>tr_id = 1, tr_league_id = 1, from_team_id = 1, to_team_id = 2,
              from_player_id = ''a'', to_player_id = ''c'', tr_tournament_id = 1,
              tr_status = ''pending''\<rparr>"
  let ?t2 = "\<lparr>tr_id = 2, tr_league_id = 1, from_team_id = 1, to_team_id = 2,
              from_player_id = ''a'', to_player_id = ''z'', tr_tournament_id = 1,
              tr_status = ''pending''\<rparr>"
  have f1: "find (\<lambda>t. tr_id t = 1) (trades sample_db) = Some ?t1"
    and f2: "find (\<lambda>t. tr_id t = 2) (trades sample_db) = Some ?t2"
    by (simp_all add: sample_db_def)
  have sz: "fetch_slot sample_db 2 ''z'' = None"
    by (simp add: fetch_slot_def sample_db_def roster_entry_def)
  have r: "fantasy_roster sample_db
           = [roster_entry 1 1 ''a'' ''duelist'' 1, roster_entry 2 1 ''b'' ''flex'' 0,
              roster_entry 3 2 ''c'' ''sentinel'' 0, roster_entry 4 2 ''b'' ''flex'' 0]"
    and n: "next_roster_id sample_db = 5"
    and ft: "list_ex (\<lambda>x. ft_id x = 1) (fantasy_teams sample_db)"
      "list_ex (\<lambda>x. ft_id x = 2) (fantasy_teams sample_db)"
    by (simp_all add: sample_db_def)
  have m: "resolve_trade sample_db 2 ''accepted''
             = (Inr True, set_trade_status sample_db 2 ''accepted'')
           \<and> fantasy_roster (snd (resolve_trade sample_db 2 ''accepted''))
             = fantasy_roster sample_db"
    using resolve_trade_accept [where d = sample_db and i = 2 and t = ?t2] f2 sz
    by (simp add: roster_set_trade_status)
  have sw: "fst (resolve_trade sample_db 1 ''accepted'') = Inr True
     \<and> trades (snd (resolve_trade sample_db 1 ''accepted''))
              = trades (set_trade_status sample_db 1 ''accepted'')
     \<and> fantasy_roster (snd (resolve_trade sample_db 1 ''accepted''))
       = [roster_entry 2 1 ''b'' ''flex'' 0, roster_entry 4 2 ''b'' ''flex'' 0,
          roster_entry 5 1 ''c'' ''duelist'' 0, roster_entry 6 2 ''a'' ''sentinel'' 0]"
    using resolve_trade_accept [where d = sample_db and i = 1 and t = ?t1
        and fs = "roster_entry 1 1 ''a'' ''duelist'' 1"
        and ts = "roster_entry 3 2 ''c'' ''sentinel'' 0"] f1 ft
    by (simp add: r n roster_entry_def)
  have st: "map tr_status (trades (set_trade_status sample_db 1 ''accepted''))
              = [''accepted'', ''pending'', ''pending'']"
    by (simp add: set_trade_status_def sample_db_def)
  show ?thesis using m sw st sz by (simp add: roster_set_trade_status)
qed

section \<open>At most one star per team and phase\<close>

lemma star_count_le_one_all:
  assumes "list_all (\<lambda>fr. star_count rows (fr_fantasy_team_id fr) (fr_phase fr) \<le> 1) rows"
  shows "star_count rows t ph \<le> 1"
proof (cases "filter (\<lambda>fr. fr_fantasy_team_id fr = t \<and> fr_phase fr = ph \<and> fr_is_star fr \<noteq> 0) rows")
  case Nil
  then show ?thesis by (simp add: star_count_def)
next
  case (Cons fr frs)
  then have "fr \<in> set (filter (\<lambda>fr. fr_fantasy_team_id fr = t \<and> fr_phase fr = ph \<and> fr_is_star fr \<noteq> 0) rows)"
    by simp
  then have "fr \<in> set rows" "fr_fantasy_team_id fr = t" "fr_phase fr = ph" by auto
  with assms show ?thesis by (auto simp: list_all_iff)
qed

lemma roster_ok_iff:
  "roster_ok rows \<longleftrightarrow> distinct (map roster_key rows) \<and> (\<forall>t ph. star_count rows t ph \<le> 1)"
  using star_count_le_one_all [of rows] by (auto simp: roster_ok_def list_all_iff)

lemma star_count_Nil: "star_count [] t ph = 0"
  by (simp add: star_count_def)

lemma star_count_Cons:
  "star_count (fr # rows) t ph =
     (if fr_fantasy_team_id fr = t \<and> fr_phase fr = ph \<and> fr_is_star fr \<noteq> 0
      then Suc (star_count rows t ph) else star_count rows t ph)"
  by (simp add: star_count_def)

lemma clear_star_Cons:
  "clear_star_stmt (fr # rows) t ph =
     (if fr_fantasy_team_id fr = t \<and> fr_phase fr = ph then fr\<lparr>fr_is_star := 0\<rparr> else fr)
     # clear_star_stmt rows t ph"
  and clear_star_Nil: "clear_star_stmt [] t ph = []"
  by (simp_all add: clear_star_stmt_def)

lemma mark_star_Cons:
  "mark_star_stmt (fr # rows) t p ph =
     (if fr_fantasy_team_id fr = t \<and> fr_player_id fr = p \<and> fr_phase fr = ph
      then fr\<lparr>fr_is_star := 1\<rparr> else fr)
     # mark_star_stmt rows t p ph"
  and mark_star_Nil: "mark_star_stmt [] t p ph = []"
  by (simp_all add: mark_star_stmt_def)

lemma star_count_filter_le: "star_count (filter P rows) t ph \<le> star_count rows t ph"
  by (induction rows) (simp_all add: star_count_Nil star_count_Cons)

lemma roster_ok_filter:
  assumes "roster_ok rows"
  shows "roster_ok (filter P rows)"
  unfolding roster_ok_iff
proof (intro conjI allI)
  from assms show "distinct (map roster_key (filter P rows))"
    by (simp add: roster_ok_iff distinct_map_filter)
next
  fix t ph
  have "star_count (filter P rows) t ph \<le> star_count rows t ph"
    by (rule star_count_filter_le)
  also from assms have "\<dots> \<le> 1" by (simp add: roster_ok_iff)
  finally show "star_count (filter P rows) t ph \<le> 1" .
qed

lemma roster_ok_delete: "roster_ok rows \<Longrightarrow> roster_ok (delete_roster rows t p ph)"
  by (simp add: delete_roster_def roster_ok_filter)

lemma key_count_le_one:
  "distinct (map roster_key rows) \<Longrightarrow> length (filter (\<lambda>fr. roster_key fr = k) rows) \<le> 1"
proof (induction rows)
  case Nil
  then show ?case by simp
next
  case (Cons fr rows)
  show ?case
  proof (cases "roster_key fr = k")
    case True
    with Cons.prems have "k \<notin> roster_key ` set rows" by auto
    then have "filter (\<lambda>fr. roster_key fr = k) rows = []"
      by (auto simp: filter_empty_conv)
    with True show ?thesis by simp
  next
    case False
    with Cons show ?thesis by simp
  qed
qed

lemma key_count_one:
  "distinct (map roster_key rows) \<Longrightarrow> list_ex (\<lambda>fr. roster_key fr = k) rows
   \<Longrightarrow> length (filter (\<lambda>fr. roster_key fr = k) rows) = 1"
proof -
  assume d: "distinct (map roster_key rows)" and e: "list_ex (\<lambda>fr. roster_key fr = k) rows"
  from e have "filter (\<lambda>fr. roster_key fr = k) rows \<noteq> []"
    by (auto simp: list_ex_iff filter_empty_conv)
  then have "0 < length (filter (\<lambda>fr. roster_key fr = k) rows)" by simp
  with key_count_le_one [OF d, of k] show ?thesis by linarith
qed

lemma keys_clear: "map roster_key (clear_star_stmt rows t ph) = map roster_key rows"
  by (induction rows) (simp_all add: clear_star_Nil clear_star_Cons roster_key_def)

lemma keys_mark: "map roster_key (mark_star_stmt rows t p ph) = map roster_key rows"
  by (induction rows) (simp_all add: mark_star_Nil mark_star_Cons roster_key_def)

lemma star_count_clear:
  "star_count (clear_star_stmt rows t ph) t' ph'
   = (if t' = t \<and> ph' = ph then 0 else star_count rows t' ph')"
  by (induction rows) (auto simp: clear_star_Nil clear_star_Cons star_count_Nil star_count_Cons)

lemma star_count_mark_other:
  "\<not> (t' = t \<and> ph' = ph) \<Longrightarrow> star_count (mark_star_stmt rows t p ph) t' ph' = star_count rows t' ph'"
  by (induction rows) (auto simp: mark_star_Nil mark_star_Cons star_count_Nil star_count_Cons)

lemma star_count_mark_same:
  "star_count rows t ph = 0 \<Longrightarrow>
   star_count (mark_star_stmt rows t p ph) t ph
   = length (filter (\<lambda>fr. roster_key fr = (t, p, ph)) rows)"
  by (induction rows)
     (auto simp: mark_star_Nil mark_star_Cons star_count_Nil star_count_Cons roster_key_def
        split: if_splits)

lemma star_count_set_star:
  "star_count (mark_star_stmt (clear_star_stmt rows t ph) t p ph) t ph
   = length (filter (\<lambda>fr. roster_key fr = (t, p, ph)) rows)"
proof -
  have "star_count (mark_star_stmt (clear_star_stmt rows t ph) t p ph) t ph
        = length (filter (\<lambda>fr. roster_key fr = (t, p, ph)) (clear_star_stmt rows t ph))"
    by (rule star_count_mark_same) (simp add: star_count_clear)
  also have "\<dots> = length (filter (\<lambda>k. k = (t, p, ph)) (map roster_key (clear_star_stmt rows t ph)))"
    by (simp add: filter_map o_def)
  also have "\<dots> = length (filter (\<lambda>fr. roster_key fr = (t, p, ph)) rows)"
    by (simp add: keys_clear filter_map o_def)
  finally show ?thesis .
qed

lemma roster_ok_clear: "roster_ok rows \<Longrightarrow> roster_ok (clear_star_stmt rows t ph)"
  unfolding roster_ok_iff by (simp add: keys_clear star_count_clear)

lemma roster_ok_set_star:
  assumes "roster_ok rows"
  shows "roster_ok (mark_star_stmt (clear_star_stmt rows t ph) t p ph)"
  unfolding roster_ok_iff
proof (intro conjI allI)
  from assms show "distinct (map roster_key (mark_star_stmt (clear_star_stmt rows t ph) t p ph))"
    by (simp add: keys_mark keys_clear roster_ok_iff)
next
  fix t' ph'
  show "star_count (mark_star_stmt (clear_star_stmt rows t ph) t p ph) t' ph' \<le> 1"
  proof (cases "t' = t \<and> ph' = ph")
    case True
    with assms key_count_le_one [of rows "(t, p, ph)"] show ?thesis
      by (simp add: star_count_set_star roster_ok_iff)
  next
    case False
    with assms show ?thesis
      by (simp add: star_count_mark_other star_count_clear roster_ok_iff)
  qed
qed

lemma star_count_append_unstarred:
  "fr_is_star fr = 0 \<Longrightarrow> star_count (rows @ [fr]) t ph = star_count rows t ph"
  by (simp add: star_count_def)

lemma roster_ok_insert:
  assumes "roster_ok (fantasy_roster d)" and "insert_roster d t p tid slot ph dup = Inr d'"
  shows "roster_ok (fantasy_roster d')"
proof -
  let ?new = "\<lparr>fr_id = next_roster_id d, fr_fantasy_team_id = t, fr_player_id = p,
                fr_tournament_id = tid, fr_role_slot = slot, fr_is_star = 0,
                fr_is_duplicate = dup, fr_phase = ph\<rparr>"
  from assms(2) have r: "fantasy_roster d' = fantasy_roster d @ [?new]"
    and fresh: "\<not> list_ex (\<lambda>fr. fr_fantasy_team_id fr = t \<and> fr_player_id fr = p \<and> fr_phase fr = ph)
                    (fantasy_roster d)"
    by (auto simp: insert_roster_def split: if_splits)
  from fresh have "roster_key ?new \<notin> roster_key ` set (fantasy_roster d)"
    by (auto simp: list_ex_iff roster_key_def)
  with assms(1) show ?thesis
    unfolding roster_ok_iff r by (simp add: star_count_append_unstarred)
qed

lemma foldl_invariant:
  "P a \<Longrightarrow> (\<And>a x. P a \<Longrightarrow> P (f a x)) \<Longrightarrow> P (foldl f a xs)"
  by (induction xs arbitrary: a) auto

lemma roster_ok_transition_team: "roster_ok rows \<Longrightarrow> roster_ok (transition_team kept rows t)"
  unfolding transition_team_def
  by (rule foldl_invariant) (auto simp: drop_unkept_def roster_ok_delete)

lemma roster_ok_swap:
  assumes "roster_ok (fantasy_roster d)" and "swap_players d t fs ts = Inr d'"
  shows "roster_ok (fantasy_roster d')"
proof -
  let ?d2 = "d\<lparr>fantasy_roster :=
                delete_roster (delete_roster (fantasy_roster d) (from_team_id t) (from_player_id t) None)
                  (to_team_id t) (to_player_id t) None\<rparr>"
  from assms(2) obtain d3 where
    i1: "insert_roster ?d2 (from_team_id t) (to_player_id t) (tr_tournament_id t)
           (fr_role_slot fs) (fr_phase fs) 0 = Inr d3"
    and i2: "insert_roster d3 (to_team_id t) (from_player_id t) (tr_tournament_id t)
           (fr_role_slot ts) (fr_phase ts) 0 = Inr d'"
    by (auto simp: swap_players_def bind_err_def Let_def split: sum.splits)
  have "roster_ok (fantasy_roster ?d2)"
    using assms(1) by (simp add: roster_ok_delete)
  then have "roster_ok (fantasy_roster d3)" using i1 by (rule roster_ok_insert)
  then show ?thesis using i2 by (rule roster_ok_insert)
qed

lemma roster_ok_resolve_trade:
  assumes "roster_ok (fantasy_roster d)"
  shows "roster_ok (fantasy_roster (snd (resolve_trade d i a)))"
  using assms roster_ok_swap [OF assms]
  by (auto simp: resolve_trade_def set_trade_status_def split: option.splits sum.splits)

lemma roster_ok_cascade:
  "roster_ok (fantasy_roster d) \<Longrightarrow> roster_ok (fantasy_roster (delete_league_cascade d l))"
proof -
  assume a: "roster_ok (fantasy_roster d)"
  have "roster_ok (fantasy_roster (foldl (\<lambda>dd t.
                  dd\<lparr>fantasy_roster := filter (\<lambda>fr. fr_fantasy_team_id fr \<noteq> t) (fantasy_roster dd),
                     followed_teams := (followed_teams dd)(t := None),
                     point_adjustments :=
                       filter (\<lambda>a. pa_fantasy_team_id a \<noteq> t) (point_adjustments dd)\<rparr>)
                d (map ft_id (filter (\<lambda>t. ft_league_id t = l) (fantasy_teams d)))))"
    by (rule foldl_invariant [where P = "\<lambda>d. roster_ok (fantasy_roster d)"])
       (simp_all add: a roster_ok_filter)
  then show ?thesis by (simp add: delete_league_cascade_def Let_def)
qed

lemma roster_ok_run_op:
  assumes "roster_ok (fantasy_roster d)"
  shows "roster_ok (fantasy_roster (run_op d op))"
proof (cases op)
  case (AddPlayerToRoster t pid tid slot phase dup)
  with assms roster_ok_insert [OF assms] show ?thesis
    by (auto simp: add_player_to_roster_def split: sum.splits)
next
  case (RemovePlayerFromRoster t pid phase)
  with assms show ?thesis by (simp add: remove_player_from_roster_def roster_ok_delete)
next
  case (SetStarPlayer t pid phase)
  with assms show ?thesis by (simp add: set_star_player_def roster_ok_set_star)
next
  case (ClearStarPlayer t phase)
  with assms show ?thesis by (simp add: clear_star_player_def roster_ok_clear)
next
  case (TransitionToPlayoffs l kept)
  have "roster_ok (foldl (transition_team kept) (fantasy_roster d)
           (map ft_id (filter (\<lambda>t. ft_league_id t = l) (fantasy_teams d))))"
    by (rule foldl_invariant) (simp_all add: assms roster_ok_transition_team)
  with TransitionToPlayoffs show ?thesis by (simp add: transition_to_playoffs_def)
next
  case (ResolveTrade i a)
  with assms show ?thesis by (simp add: roster_ok_resolve_trade)
next
  case (DeleteFantasyTeam t)
  with assms show ?thesis by (simp add: delete_fantasy_team_def roster_ok_filter)
next
  case (DeleteLeague l)
  with assms show ?thesis by (simp add: delete_league_def roster_ok_cascade)
next
  case (DeleteTournament tid)
  have "roster_ok (fantasy_roster (foldl delete_league_cascade
           (d\<lparr>players := (\<lambda>k. if snd k = tid then None else players d k)\<rparr>)
           (map l_id (filter (\<lambda>l. l_tournament_id l = tid) (leagues d)))))"
    by (rule foldl_invariant [where P = "\<lambda>d. roster_ok (fantasy_roster d)"])
       (simp_all add: assms roster_ok_cascade)
  with DeleteTournament show ?thesis by (simp add: delete_tournament_def Let_def)
qed

lemma roster_ok_run_ops:
  "roster_ok (fantasy_roster d) \<Longrightarrow> roster_ok (fantasy_roster (foldl run_op d ops))"
  by (rule foldl_invariant [where P = "\<lambda>d. roster_ok (fantasy_roster d)"])
     (simp_all add: roster_ok_run_op)

text \<open>
  C8, as the code has it. At most one roster entry of a fantasy team in a phase carries
  the star flag, at all times: starting from a roster table with distinct keys and at
  most one star per team and phase (the empty table is one), the table has both
  properties after every operation that writes to it, and so after any sequence of them.
  \<open>set_star_player\<close> first clears every star of the team in the phase, which leaves none,
  and then stars the entries of the named player in that team and phase: exactly one
  when the player is on that roster, none when the player is not, so that such a call
  takes the team's star away. Both statements are committed together, and the state
  between them has no star for the team and phase either.
\<close>

theorem at_most_one_star:
  "roster_ok []
   \<and> (roster_ok (fantasy_roster d) \<longrightarrow>
        roster_ok (fantasy_roster (run_op d op))
        \<and> roster_ok (fantasy_roster (foldl run_op d ops))
        \<and> star_count (fantasy_roster (foldl run_op d ops)) t' ph' \<le> 1
        \<and> fantasy_roster (set_star_player d t p ph)
            = mark_star_stmt (clear_star_stmt (fantasy_roster d) t ph) t p ph
        \<and> star_count (clear_star_stmt (fantasy_roster d) t ph) t ph = 0
        \<and> roster_ok (clear_star_stmt (fantasy_roster d) t ph)
        \<and> star_count (fantasy_roster (set_star_player d t p ph)) t ph \<le> 1
        \<and> (list_ex (\<lambda>fr. roster_key fr = (t, p, ph)) (fantasy_roster d) \<longrightarrow>
             star_count (fantasy_roster (set_star_player d t p ph)) t ph = 1)
        \<and> (\<not> list_ex (\<lambda>fr. roster_key fr = (t, p, ph)) (fantasy_roster d) \<longrightarrow>
             star_count (fantasy_roster (set_star_player d t p ph)) t ph = 0))"
proof (intro conjI impI)
  show "roster_ok []" by (simp add: roster_ok_def)
next
  assume ok: "roster_ok (fantasy_roster d)"
  show "roster_ok (fantasy_roster (run_op d op))" using ok by (rule roster_ok_run_op)
  show "roster_ok (fantasy_roster (foldl run_op d ops))" using ok by (rule roster_ok_run_ops)
  then show "star_count (fantasy_roster (foldl run_op d ops)) t' ph' \<le> 1"
    by (simp add: roster_ok_iff)
  show "fantasy_roster (set_star_player d t p ph)
            = mark_star_stmt (clear_star_stmt (fantasy_roster d) t ph) t p ph"
    by (simp add: set_star_player_def)
  show "star_count (clear_star_stmt (fantasy_roster d) t ph) t ph = 0"
    by (simp add: star_count_clear)
  show "roster_ok (clear_star_stmt (fantasy_roster d) t ph)" using ok by (rule roster_ok_clear)
  from ok key_count_le_one [of "fantasy_roster d" "(t, p, ph)"]
  show "star_count (fantasy_roster (set_star_player d t p ph)) t ph \<le> 1"
    by (simp add: set_star_player_def star_count_set_star roster_ok_iff)
next
  assume ok: "roster_ok (fantasy_roster d)"
    and on: "list_ex (\<lambda>fr. roster_key fr = (t, p, ph)) (fantasy_roster d)"
  from ok have "distinct (map roster_key (fantasy_roster d))" by (simp add: roster_ok_iff)
  from key_count_one [OF this on]
  show "star_count (fantasy_roster (set_star_player d t p ph)) t ph = 1"
    by (simp add: set_star_player_def star_count_set_star)
next
  assume off: "\<not> list_ex (\<lambda>fr. roster_key fr = (t, p, ph)) (fantasy_roster d)"
  then have "filter (\<lambda>fr. roster_key fr = (t, p, ph)) (fantasy_roster d) = []"
    by (auto simp: list_ex_iff filter_empty_conv)
  then show "star_count (fantasy_roster (set_star_player d t p ph)) t ph = 0"
    by (simp add: set_star_player_def star_count_set_star)
qed

theorem at_most_one_star_witness:
  "roster_ok (fantasy_roster sample_db)
   \<and> star_count (fantasy_roster sample_db) 1 ''swiss'' = 1
   \<and> list_ex (\<lambda>fr. roster_key fr = (1, ''b'', ''swiss'')) (fantasy_roster sample_db)
   \<and> roster_ok (fantasy_roster (run_op sample_db (SetStarPlayer 1 ''b'' ''swiss'')))
   \<and> map fr_is_star (fantasy_roster (set_star_player sample_db 1 ''b'' ''swiss'')) = [0, 1, 0, 0]
   \<and> star_count (fantasy_roster (set_star_player sample_db 1 ''b'' ''swiss'')) 1 ''swiss'' = 1
   \<and> \<not> list_ex (\<lambda>fr. roster_key fr = (1, ''z'', ''swiss'')) (fantasy_roster sample_db)
   \<and> star_count (fantasy_roster (set_star_player sample_db 1 ''z'' ''swiss'')) 1 ''swiss'' = 0
   \<and> roster_ok (fantasy_roster (foldl run_op sample_db
         [SetStarPlayer 2 ''c'' ''swiss'', ResolveTrade 1 ''accepted'',
          AddPlayerToRoster 3 ''a'' 1 ''flex'' ''swiss'' 0, SetStarPlayer 3 ''a'' ''swiss'']))"
proof -
  have r: "fantasy_roster sample_db
           = [roster_entry 1 1 ''a'' ''duelist'' 1, roster_entry 2 1 ''b'' ''flex'' 0,
              roster_entry 3 2 ''c'' ''sentinel'' 0, roster_entry 4 2 ''b'' ''flex'' 0]"
    by (simp add: sample_db_def)
  have ok: "roster_ok (fantasy_roster sample_db)"
    by (simp add: r roster_ok_def roster_key_def roster_entry_def star_count_def)
  have c: "star_count (fantasy_roster sample_db) 1 ''swiss'' = 1"
    by (simp add: r roster_entry_def star_count_def)
  have b: "list_ex (\<lambda>fr. roster_key fr = (1, ''b'', ''swiss'')) (fantasy_roster sample_db)"
    and z: "\<not> list_ex (\<lambda>fr. roster_key fr = (1, ''z'', ''swiss'')) (fantasy_roster sample_db)"
    by (simp_all add: r roster_key_def roster_entry_def)
  have m: "map fr_is_star (fantasy_roster (set_star_player sample_db 1 ''b'' ''swiss'')) = [0, 1, 0, 0]"
    by (simp add: set_star_player_def r roster_entry_def mark_star_stmt_def clear_star_stmt_def)
  let ?ops = "[SetStarPlayer 2 ''c'' ''swiss'', ResolveTrade 1 ''accepted'',
          AddPlayerToRoster 3 ''a'' 1 ''flex'' ''swiss'' 0, SetStarPlayer 3 ''a'' ''swiss'']"
  note w1 = at_most_one_star [of sample_db "SetStarPlayer 1 ''b'' ''swiss''" ?ops 1 "''swiss''"
      1 "''b''" "''swiss''"]
  note w2 = at_most_one_star [of sample_db "SetStarPlayer 1 ''b'' ''swiss''" ?ops 1 "''swiss''"
      1 "''z''" "''swiss''"]
  have o1: "roster_ok (fantasy_roster (run_op sample_db (SetStarPlayer 1 ''b'' ''swiss'')))"
    using w1 ok by blast
  have o2: "roster_ok (fantasy_roster (foldl run_op sample_db ?ops))"
    using w1 ok by blast
  have s1: "star_count (fantasy_roster (set_star_player sample_db 1 ''b'' ''swiss'')) 1 ''swiss'' = 1"
    using w1 ok b by blast
  have s0: "star_count (fantasy_roster (set_star_player sample_db 1 ''z'' ''swiss'')) 1 ''swiss'' = 0"
    using w2 ok z by blast
  show ?thesis
    using ok c b z m o1 o2 s1 s0 by blast
qed

text \<open>
  The star is not always set: team 1 has its star on player \<open>a\<close>; \<open>set_star_player\<close> for
  player \<open>z\<close>, who is not on the team's roster, clears that star and sets none.
\<close>

theorem set_star_player_absent_counterexample:
  "star_count (fantasy_roster sample_db) 1 ''swiss'' = 1
   \<and> map fr_is_star (fantasy_roster sample_db) = [1, 0, 0, 0]
   \<and> map fr_is_star (fantasy_roster (set_star_player sample_db 1 ''z'' ''swiss'')) = [0, 0, 0, 0]
   \<and> star_count (fantasy_roster (set_star_player sample_db 1 ''z'' ''swiss'')) 1 ''swiss'' = 0"
  by (simp add: sample_db_def set_star_player_def roster_entry_def mark_star_stmt_def
      clear_star_stmt_def star_count_def)

section \<open>Standings\<close>

lemma roster_loop_sums:
  "roster_loop roster (a, b) = (a + spec_player_pts roster, b + spec_star_bonus roster)"
proof (induction roster arbitrary: a b)
  case Nil
  show ?case by (simp add: spec_player_pts_def spec_star_bonus_def)
next
  case (Cons x roster)
  obtain p fr where x: "x = (p, fr)" by (cases x)
  show ?case
    unfolding x by (simp add: Cons.IH Let_def spec_player_pts_def spec_star_bonus_def)
qed

lemma foldl_add: "foldl (\<lambda>acc x. acc + f x) (a :: rat) xs = a + sum_list (map f xs)"
  by (induction xs arbitrary: a) (simp_all add: add.assoc)

lemma follow_step:
  "(\<lambda>pts r. if mr_result r = ''win''
              then pts + (if mr_format r = ''bo3'' then 100 else 75)
              else pts + (if mr_format r = ''bo3'' then - 75 else - 50))
   = (\<lambda>(pts :: rat) r. pts + follow_delta r)"
  by (intro ext) (simp add: follow_delta_def)

lemma calculate_team_follow_points_eq:
  "calculate_team_follow_points d t tid = spec_follow_pts d t tid"
  unfolding calculate_team_follow_points_def spec_follow_pts_def get_followed_team_def follow_step
  by (simp add: foldl_add split: option.splits)

lemma team_standing_total:
  "total_points (team_standing d league phase t) = spec_total d league phase t"
  by (simp add: team_standing_def Let_def roster_loop_sums calculate_team_follow_points_eq
      get_total_adjustments_def spec_adj_pts_def spec_total_def)

lemma team_standing_id: "s_id (team_standing d league phase t) = ft_id t"
  by (simp add: team_standing_def Let_def roster_loop_sums)

lemma sorted_desc:
  "sorted_wrt (\<lambda>a b. f b \<le> f a) (sort_key (\<lambda>x. - f x) (xs :: 'a list))" for f :: "'a \<Rightarrow> rat"
proof -
  have "sorted (map (\<lambda>x. - f x) (sort_key (\<lambda>x. - f x) xs))" by (rule sorted_sort_key)
  then show ?thesis by (simp add: sorted_map)
qed

lemma stable_desc:
  "filter (\<lambda>y. f y = v) (sort_key (\<lambda>x. - f x) xs) = filter (\<lambda>y. f y = v) xs" for f :: "'a \<Rightarrow> rat"
  using sort_key_stable [of "\<lambda>x. - f x" "- v" xs] by simp

lemma dict_by_id_lookup:
  assumes "distinct (map s_id xs)" and "s \<in> set xs"
  shows "dict_by_id xs (s_id s) = Some s"
proof -
  have "distinct (map fst (rev (map (\<lambda>s. (s_id s, s)) xs)))"
    using assms(1) by (simp add: rev_map [symmetric] o_def)
  moreover have "(s_id s, s) \<in> set (rev (map (\<lambda>s. (s_id s, s)) xs))"
    using assms(2) by auto
  ultimately show ?thesis
    unfolding dict_by_id_def by (rule map_of_is_SomeI)
qed

lemma distinct_team_ids:
  "distinct (map ft_id (fantasy_teams d)) \<Longrightarrow> distinct (map ft_id (get_teams_in_league d l))"
  by (simp add: get_teams_in_league_def distinct_map inj_on_def distinct_map_filter)

lemma distinct_standing_ids:
  assumes "distinct (map ft_id (fantasy_teams d))" and "get_league d l = Some league"
  shows "distinct (map s_id (get_phase_standings d l phase))"
proof -
  let ?teams = "get_teams_in_league d l"
  have "distinct (map s_id (map (team_standing d league phase) ?teams))"
    using distinct_team_ids [OF assms(1), of l] by (simp add: o_def team_standing_id)
  then have "distinct (map (team_standing d league phase) ?teams)"
    and "inj_on s_id (set (map (team_standing d league phase) ?teams))"
    by (simp_all only: distinct_map)
  then show ?thesis
    using assms(2) by (simp add: get_phase_standings_def distinct_map)
qed

lemma phase_lookup:
  assumes "distinct (map ft_id (fantasy_teams d))" and "get_league d l = Some league"
    and "t \<in> set (get_teams_in_league d l)"
  shows "dict_by_id (get_phase_standings d l phase) (ft_id t) = Some (team_standing d league phase t)"
proof -
  have "team_standing d league phase t \<in> set (get_phase_standings d l phase)"
    using assms(2,3) by (simp add: get_phase_standings_def)
  from dict_by_id_lookup [OF distinct_standing_ids [OF assms(1,2)] this]
  show ?thesis by (simp add: team_standing_id)
qed

lemma overall_rows:
  assumes dist: "distinct (map ft_id (fantasy_teams d))" and lg: "get_league d l = Some league"
  shows "\<exists>rows. get_overall_standings d l = sort_key (\<lambda>x. - o_total_points x) rows
           \<and> map o_id rows = map ft_id (get_teams_in_league d l)
           \<and> map swiss_pts rows = map (spec_total d league ''swiss'') (get_teams_in_league d l)
           \<and> map playoffs_pts rows
               = map (spec_total d league ''playoffs'') (get_teams_in_league d l)
           \<and> map o_total_points rows
               = map (\<lambda>t. py_round (spec_total d league ''swiss'' t
                                     + spec_total d league ''playoffs'' t) 2)
                   (get_teams_in_league d l)"
proof -
  let ?teams = "get_teams_in_league d l"
  let ?swiss = "dict_by_id (get_phase_standings d l ''swiss'')"
  let ?playoffs = "dict_by_id (get_phase_standings d l ''playoffs'')"
  let ?mk = "\<lambda>t.
       let s_pts = (case ?swiss (ft_id t) of None \<Rightarrow> 0 | Some s \<Rightarrow> total_points s);
           p_pts = (case ?playoffs (ft_id t) of None \<Rightarrow> 0 | Some s \<Rightarrow> total_points s)
       in \<lparr>o_id = ft_id t, o_team_name = team_name t,
           swiss_pts = s_pts, playoffs_pts = p_pts,
           o_total_points = py_round (s_pts + p_pts) 2,
           o_player_count = (case ?swiss (ft_id t) of None \<Rightarrow> 0 | Some s \<Rightarrow> player_count s),
           o_followed_team = (case ?swiss (ft_id t) of None \<Rightarrow> None | Some s \<Rightarrow> followed_team s)\<rparr>"
  have e: "get_overall_standings d l = sort_key (\<lambda>x. - o_total_points x) (map ?mk ?teams)"
    by (simp add: get_overall_standings_def Let_def)
  have i: "map o_id (map ?mk ?teams) = map ft_id ?teams"
    by (simp add: Let_def o_def)
  have s: "map swiss_pts (map ?mk ?teams) = map (spec_total d league ''swiss'') ?teams"
    by (simp add: Let_def o_def phase_lookup [OF dist lg] team_standing_total cong: map_cong)
  have p: "map playoffs_pts (map ?mk ?teams) = map (spec_total d league ''playoffs'') ?teams"
    by (simp add: Let_def o_def phase_lookup [OF dist lg] team_standing_total cong: map_cong)
  have t: "map o_total_points (map ?mk ?teams)
           = map (\<lambda>t. py_round (spec_total d league ''swiss'' t
                                 + spec_total d league ''playoffs'' t) 2) ?teams"
    by (simp add: Let_def o_def phase_lookup [OF dist lg] team_standing_total cong: map_cong)
  from e i s p t show ?thesis by blast
qed

text \<open>
  C4. For a league that exists and any phase, the standings are one entry per team of
  the league whose total is \<open>round(playerPts + starBonus + followPts + adjPts, 2)\<close>:
  \<open>playerPts\<close> sums \<open>fantasy_points + manual_pts\<close> over the team's roster of the phase,
  \<open>starBonus\<close> adds half of that sum's term for every entry flagged star, \<open>followPts\<close>
  sums, over the results of the followed team, \<open>+100\<close> for a win and \<open>-75\<close> otherwise in a
  best-of-3 and \<open>+75\<close> for a win and \<open>-50\<close> otherwise in any other format, and \<open>adjPts\<close>
  sums the team's adjustments. The entries are in descending order of total, entries of
  equal total in the order of the teams. With team ids distinct, the overall standings
  have one entry per team whose swiss and playoffs points are the totals of the two
  phase standings and whose total is their sum rounded to 2 places, again sorted
  descending and stably.
\<close>

theorem standings_totals:
  "get_league d league_id = Some league \<longrightarrow>
     get_phase_standings d league_id phase
       = sort_key (\<lambda>x. - total_points x)
           (map (team_standing d league phase) (get_teams_in_league d league_id))
     \<and> s_id (team_standing d league phase t) = ft_id t
     \<and> total_points (team_standing d league phase t)
         = py_round (spec_player_pts (get_roster d (ft_id t) phase)
                     + spec_star_bonus (get_roster d (ft_id t) phase)
                     + spec_follow_pts d (ft_id t) (l_tournament_id league)
                     + spec_adj_pts d (ft_id t)) 2
     \<and> sorted_wrt (\<lambda>a b. total_points b \<le> total_points a)
           (get_phase_standings d league_id phase)
     \<and> filter (\<lambda>s. total_points s = v) (get_phase_standings d league_id phase)
         = filter (\<lambda>s. total_points s = v)
             (map (team_standing d league phase) (get_teams_in_league d league_id))
     \<and> sorted_wrt (\<lambda>a b. o_total_points b \<le> o_total_points a)
           (get_overall_standings d league_id)
     \<and> (distinct (map ft_id (fantasy_teams d)) \<longrightarrow>
          (\<exists>rows. get_overall_standings d league_id = sort_key (\<lambda>x. - o_total_points x) rows
             \<and> filter (\<lambda>s. o_total_points s = v) (get_overall_standings d league_id)
                 = filter (\<lambda>s. o_total_points s = v) rows
             \<and> map o_id rows = map ft_id (get_teams_in_league d league_id)
             \<and> map swiss_pts rows
                 = map (\<lambda>t. total_points (team_standing d league ''swiss'' t))
                     (get_teams_in_league d league_id)
             \<and> map playoffs_pts rows
                 = map (\<lambda>t. total_points (team_standing d league ''playoffs'' t))
                     (get_teams_in_league d league_id)
             \<and> map o_total_points rows
                 = map (\<lambda>t. py_round (total_points (team_standing d league ''swiss'' t)
                                       + total_points (team_standing d league ''playoffs'' t)) 2)
                     (get_teams_in_league d league_id)))"
proof (intro impI conjI)
  assume lg: "get_league d league_id = Some league"
  show "get_phase_standings d league_id phase
       = sort_key (\<lambda>x. - total_points x)
           (map (team_standing d league phase) (get_teams_in_league d league_id))"
    by (simp add: get_phase_standings_def lg)
  show "s_id (team_standing d league phase t) = ft_id t" by (rule team_standing_id)
  show "total_points (team_standing d league phase t)
         = py_round (spec_player_pts (get_roster d (ft_id t) phase)
                     + spec_star_bonus (get_roster d (ft_id t) phase)
                     + spec_follow_pts d (ft_id t) (l_tournament_id league)
                     + spec_adj_pts d (ft_id t)) 2"
    by (simp add: team_standing_total spec_total_def)
  show "sorted_wrt (\<lambda>a b. total_points b \<le> total_points a)
           (get_phase_standings d league_id phase)"
    by (simp add: get_phase_standings_def lg sorted_desc)
  show "filter (\<lambda>s. total_points s = v) (get_phase_standings d league_id phase)
         = filter (\<lambda>s. total_points s = v)
             (map (team_standing d league phase) (get_teams_in_league d league_id))"
    by (simp add: get_phase_standings_def lg stable_desc)
  show "sorted_wrt (\<lambda>a b. o_total_points b \<le> o_total_points a)
           (get_overall_standings d league_id)"
    by (simp add: get_overall_standings_def Let_def sorted_desc)
next
  assume lg: "get_league d league_id = Some league"
    and dist: "distinct (map ft_id (fantasy_teams d))"
  from overall_rows [OF dist lg] obtain rows where
    r: "get_overall_standings d league_id = sort_key (\<lambda>x. - o_total_points x) rows"
      "map o_id rows = map ft_id (get_teams_in_league d league_id)"
      "map swiss_pts rows = map (spec_total d league ''swiss'') (get_teams_in_league d league_id)"
      "map playoffs_pts rows
         = map (spec_total d league ''playoffs'') (get_teams_in_league d league_id)"
      "map o_total_points rows
         = map (\<lambda>t. py_round (spec_total d league ''swiss'' t
                               + spec_total d league ''playoffs'' t) 2)
             (get_teams_in_league d league_id)"
    by blast
  have st: "filter (\<lambda>s. o_total_points s = v) (get_overall_standings d league_id)
                 = filter (\<lambda>s. o_total_points s = v) rows"
    by (simp add: r(1) stable_desc)
  show "\<exists>rows. get_overall_standings d league_id = sort_key (\<lambda>x. - o_total_points x) rows
             \<and> filter (\<lambda>s. o_total_points s = v) (get_overall_standings d league_id)
                 = filter (\<lambda>s. o_total_points s = v) rows
             \<and> map o_id rows = map ft_id (get_teams_in_league d league_id)
             \<and> map swiss_pts rows
                 = map (\<lambda>t. total_points (team_standing d league ''swiss'' t))
                     (get_teams_in_league d league_id)
             \<and> map playoffs_pts rows
                 = map (\<lambda>t. total_points (team_standing d league ''playoffs'' t))
                     (get_teams_in_league d league_id)
             \<and> map o_total_points rows
                 = map (\<lambda>t. py_round (total_points (team_standing d league ''swiss'' t)
                                       + total_points (team_standing d league ''playoffs'' t)) 2)
                     (get_teams_in_league d league_id)"
    using r st by (intro exI [of _ rows]) (simp add: team_standing_total)
qed

theorem standings_totals_witness:
  "get_league sample_db 1 = Some sample_league
   \<and> distinct (map ft_id (fantasy_teams sample_db))
   \<and> spec_player_pts (get_roster sample_db 1 ''swiss'') = 150
   \<and> spec_star_bonus (get_roster sample_db 1 ''swiss'') = 50
   \<and> spec_follow_pts sample_db 1 1 = 50
   \<and> spec_adj_pts sample_db 1 = 5
   \<and> total_points (team_standing sample_db sample_league ''swiss''
         \<lparr>ft_id = 1, ft_league_id = 1, team_name = ''T1''\<rparr>) = 255
   \<and> sorted_wrt (\<lambda>a b. total_points b \<le> total_points a)
         (get_phase_standings sample_db 1 ''swiss'')
   \<and> map total_points (get_phase_standings sample_db 1 ''swiss'') = [255, 80, 0]
   \<and> map o_total_points (get_overall_standings sample_db 1) = [310, 80, 0]"
proof -
  have l: "get_league sample_db 1 = Some sample_league"
    by (simp add: get_league_def sample_db_def sample_league_def)
  have d: "distinct (map ft_id (fantasy_teams sample_db))"
    by (simp add: sample_db_def)
  have p: "spec_player_pts (get_roster sample_db 1 ''swiss'') = 150"
    and s: "spec_star_bonus (get_roster sample_db 1 ''swiss'') = 50"
    and f: "spec_follow_pts sample_db 1 1 = 50"
    and a: "spec_adj_pts sample_db 1 = 5"
    by code_simp+
  have lt: "l_tournament_id sample_league = 1" by (simp add: sample_league_def)
  note w = standings_totals [of sample_db 1 sample_league "''swiss''"
      "\<lparr>ft_id = 1, ft_league_id = 1, team_name = ''T1''\<rparr>" 255]
  have t: "total_points (team_standing sample_db sample_league ''swiss''
         \<lparr>ft_id = 1, ft_league_id = 1, team_name = ''T1''\<rparr>) = 255"
    using w l by (simp add: p s f a lt py_round_def round_half_even_def)
  have so: "sorted_wrt (\<lambda>a b. total_points b \<le> total_points a)
         (get_phase_standings sample_db 1 ''swiss'')"
    using w l by blast
  have m: "map total_points (get_phase_standings sample_db 1 ''swiss'') = [255, 80, 0]"
    and o: "map o_total_points (get_overall_standings sample_db 1) = [310, 80, 0]"
    by code_simp+
  show ?thesis using l d p s f a t so m o by blast
qed

section \<open>Aggregation: per match, then summed, incomplete rows skipped\<close>























text \<open>
  C3. There are two complete match rows of one player, with different ACS and different
  KAST, and a role (flex), for which the sum of the two per-match totals, which is the
  \<open>fantasy_points\<close> the aggregator stores, differs from the total of scoring once the
  aggregated row (stats summed, rates averaged), and also from the total of scoring once
  the row of plain sums.
\<close>

theorem per_match_sum_differs:
  "\<exists>m1 m2 agg (summed :: match_row) b1 rb1 t1 b2 rb2 t2 b rb t b' rb' t'.
     player_id m1 = player_id m2 \<and> stats_incomplete m1 = 0 \<and> stats_incomplete m2 = 0
     \<and> acs m1 \<noteq> acs m2 \<and> kast m1 \<noteq> kast m2
     \<and> calculate_player_points m1 (Some ''flex'') = Inr (b1, rb1, t1)
     \<and> calculate_player_points m2 (Some ''flex'') = Inr (b2, rb2, t2)
     \<and> aggregate_player_stats [m1, m2] = Inr [agg]
     \<and> fantasy_points agg = t1 + t2
     \<and> calculate_player_points agg (Some ''flex'') = Inr (b, rb, t)
     \<and> t \<noteq> t1 + t2
     \<and> kills summed = kills m1 + kills m2 \<and> deaths summed = deaths m1 + deaths m2
     \<and> assists summed = assists m1 + assists m2 \<and> acs summed = acs m1 + acs m2
     \<and> kast summed = kast m1 + kast m2 \<and> adr summed = adr m1 + adr m2
     \<and> first_kills summed = first_kills m1 + first_kills m2
     \<and> first_deaths summed = first_deaths m1 + first_deaths m2
     \<and> rating summed = rating m1 + rating m2
     \<and> calculate_player_points summed (Some ''flex'') = Inr (b', rb', t')
     \<and> t' \<noteq> t1 + t2"
proof -
  have 1: "calculate_player_points match_one (Some ''flex'') = Inr (101, 401 / 16, 6303 / 50)"
    and 2: "calculate_player_points match_two (Some ''flex'') = Inr (- 19, 22493 / 2000, - (31 / 4))"
    and 3: "calculate_player_points matches_aggregated (Some ''flex'')
            = Inr (45 / 2, 20623 / 1000, 1078 / 25)"
    and 4: "calculate_player_points matches_summed (Some ''flex'')
            = Inr (142, 95603 / 2000, 949 / 5)"
    and 5: "aggregate_player_stats [match_one, match_two] = Inr [matches_aggregated]"
    by code_simp+
  have 6: "player_id match_one = player_id match_two \<and> stats_incomplete match_one = 0
           \<and> stats_incomplete match_two = 0 \<and> acs match_one \<noteq> acs match_two
           \<and> kast match_one \<noteq> kast match_two"
    by (simp add: match_one_def match_two_def)
  have 7: "fantasy_points matches_aggregated = 6303 / 50 + - (31 / 4)"
    by (simp add: matches_aggregated_def)
  have 8: "kills matches_summed = kills match_one + kills match_two
     \<and> deaths matches_summed = deaths match_one + deaths match_two
     \<and> assists matches_summed = assists match_one + assists match_two
     \<and> acs matches_summed = acs match_one + acs match_two
     \<and> kast matches_summed = kast match_one + kast match_two
     \<and> adr matches_summed = adr match_one + adr match_two
     \<and> first_kills matches_summed = first_kills match_one + first_kills match_two
     \<and> first_deaths matches_summed = first_deaths match_one + first_deaths match_two
     \<and> rating matches_summed = rating match_one + rating match_two"
    by (simp add: matches_summed_def match_one_def match_two_def)
  have 9: "(1078 / 25 :: rat) \<noteq> 6303 / 50 + - (31 / 4)"
    and 10: "(949 / 5 :: rat) \<noteq> 6303 / 50 + - (31 / 4)"
    by simp_all
  show ?thesis
    apply (rule exI [of _ match_one], rule exI [of _ match_two])
    apply (rule exI [of _ matches_aggregated], rule exI [of _ matches_summed])
    apply (rule exI [of _ 101], rule exI [of _ "401 / 16"], rule exI [of _ "6303 / 50"])
    apply (rule exI [of _ "- 19"], rule exI [of _ "22493 / 2000"], rule exI [of _ "- (31 / 4)"])
    apply (rule exI [of _ "45 / 2"], rule exI [of _ "20623 / 1000"], rule exI [of _ "1078 / 25"])
    apply (rule exI [of _ 142], rule exI [of _ "95603 / 2000"], rule exI [of _ "949 / 5"])
    using 1 2 3 4 5 6 7 8 9 10 by simp
qed

end
